theory Spec2Isabelle
  imports Complex_Main "HOL-Library.Sublist"
begin

section \<open>Strings\<close>

text \<open>
  The library works on JavaScript strings. A string is modelled as a \<^typ>\<open>string\<close>, the
  list of the bytes of its UTF-8 form: an ASCII character is one byte below 128, any other
  character is a run of bytes from 128 on (the en dash of some description texts is the
  three bytes \<open>E2 80 93\<close>).

  \<open>toUpperCase\<close> and \<open>toLowerCase\<close> are built into the language. On a string of ASCII
  characters they map the letters and leave every other character as it is. On a string
  with a character outside ASCII they follow the case tables of Unicode, where a
  character can become an ASCII letter or several characters (the long s becomes \<open>S\<close>,
  the dotless i becomes \<open>I\<close>, the sharp s becomes \<open>SS\<close>). These tables are not part
  of the library, so what the engine returns for such a string is a parameter, \<open>uc\<close> for
  \<open>toUpperCase\<close> and \<open>lc\<close> for \<open>toLowerCase\<close>, and every property below is proved for
  all \<open>uc\<close> and \<open>lc\<close>.
\<close>

definition is_ascii :: "string \<Rightarrow> bool" where
  "is_ascii s = list_all (\<lambda>c. (of_char c :: nat) < 128) s"

text \<open>
  The letters \<open>a\<close> to \<open>z\<close> are the codes 97 to 122, which all have bit 5 set, and the
  capital of a letter is 32 below it: bit 5 cleared. A character is written with its
  eight bits, lowest first.
\<close>

definition upper_char :: "char \<Rightarrow> char" where
  "upper_char c =
     (if 97 \<le> (of_char c :: nat) \<and> (of_char c :: nat) \<le> 122
      then (case c of Char b0 b1 b2 b3 b4 b5 b6 b7 \<Rightarrow> Char b0 b1 b2 b3 b4 False b6 b7)
      else c)"

definition lower_char :: "char \<Rightarrow> char" where
  "lower_char c =
     (if 65 \<le> (of_char c :: nat) \<and> (of_char c :: nat) \<le> 90
      then (case c of Char b0 b1 b2 b3 b4 b5 b6 b7 \<Rightarrow> Char b0 b1 b2 b3 b4 True b6 b7)
      else c)"

definition toUpperCase :: "(string \<Rightarrow> string) \<Rightarrow> string \<Rightarrow> string" where
  "toUpperCase uc s = (if is_ascii s then map upper_char s else uc s)"

definition toLowerCase :: "(string \<Rightarrow> string) \<Rightarrow> string \<Rightarrow> string" where
  "toLowerCase lc s = (if is_ascii s then map lower_char s else lc s)"

text \<open>\<open>s.includes(sub)\<close>: \<open>sub\<close> occurs in \<open>s\<close> as a contiguous run of characters.\<close>

fun includes_str :: "string \<Rightarrow> string \<Rightarrow> bool" where
  "includes_str [] sub = (sub = [])"
| "includes_str (c # cs) sub = (prefix sub (c # cs) \<or> includes_str cs sub)"

section \<open>Enumerations and tables\<close>

text \<open>
  \<open>UPIStatus\<close> and \<open>UPITransactionType\<close> are frozen objects whose property values are
  strings; a record carries the string, so the model keeps the strings.
\<close>

definition UPIStatus_SUCCESS :: string where "UPIStatus_SUCCESS = ''Processed''"
definition UPIStatus_PENDING :: string where "UPIStatus_PENDING = ''Pending''"
definition UPIStatus_REJECTED :: string where "UPIStatus_REJECTED = ''Rejected''"

definition UPITransactionType_PAY :: string where
  "UPITransactionType_PAY = ''Pay Request (Push)''"
definition UPITransactionType_COLLECT :: string where
  "UPITransactionType_COLLECT = ''Collect Request (Pull)''"
definition UPITransactionType_INTENT :: string where
  "UPITransactionType_INTENT = ''UPI Intent-Based Payment''"
definition UPITransactionType_AUTOPAY :: string where
  "UPITransactionType_AUTOPAY = ''UPI Autopay''"
definition UPITransactionType_LITE :: string where
  "UPITransactionType_LITE = ''UPI Lite''"
definition UPITransactionType_ASBA :: string where
  "UPITransactionType_ASBA = ''UPI for ASBA''"

definition UPITransactionType :: "(string \<times> string) list" where
  "UPITransactionType = [
     (''PAY'', UPITransactionType_PAY),
     (''COLLECT'', UPITransactionType_COLLECT),
     (''INTENT'', UPITransactionType_INTENT),
     (''AUTOPAY'', UPITransactionType_AUTOPAY),
     (''LITE'', UPITransactionType_LITE),
     (''ASBA'', UPITransactionType_ASBA)
   ]"

text \<open>
  An object literal is written as the list of its properties in source order, a property
  value \<open>[description, type, status, handling]\<close> as a 4-tuple.
\<close>

definition UPIErrorCodes :: "(string \<times> string \<times> string \<times> string \<times> string) list" where
  "UPIErrorCodes = [
    (''00'', (''Approved or completed successfully'', ''Success'', UPIStatus_SUCCESS, ''No action needed.'')),
    (''000'', (''Success (alternate)'', ''Success'', UPIStatus_SUCCESS, ''Same as 00.'')),
    (''01'', (''Unable to process reversal / Account closed'', ''Business'', UPIStatus_REJECTED, ''Reinitiate with same CRN; e.g., closed account in mandate presentation.'')),
    (''02'', (''No such account'', ''Business'', UPIStatus_REJECTED, ''Invalid beneficiary; recheck details.'')),
    (''03'', (''Merchant VPA not found'', ''Technical'', UPIStatus_REJECTED, ''Invalid merchant; reinitiate.'')),
    (''04'', (''Technical decline / Balance insufficient'', ''Business/Technical'', UPIStatus_REJECTED, ''Insufficient funds; top up account.'')),
    (''05'', (''Technical failure (unauthorized request) / Not arranged for'', ''Business/Technical'', UPIStatus_REJECTED, ''Unauthorized or arrangement missing; reinitiate.'')),
    (''091'', (''Timeout'', ''Technical'', UPIStatus_PENDING, ''Wait; do not reinitiate.'')),
    (''10'', (''PIN block error'', ''Technical'', UPIStatus_REJECTED, ''Invalid PIN; retry.'')),
    (''100'', (''PI (basic) attributes of demographic data did not match'', ''Business'', UPIStatus_REJECTED, ''Aadhaar mismatch; verify details.'')),
    (''12'', (''Invalid transaction'', ''Technical'', UPIStatus_REJECTED, ''Format/issue; reinitiate.'')),
    (''125'', (''Transaction limit crossed'', ''Business'', UPIStatus_REJECTED, ''Exceeds daily limit; wait or split.'')),
    (''13'', (''Invalid amount field'', ''Technical'', UPIStatus_REJECTED, ''Amount error; correct and retry.'')),
    (''14'', (''Invalid card number'', ''Technical'', UPIStatus_REJECTED, ''Wrong card; re-enter.'')),
    (''15'', (''Issuer not live on UPI'', ''Technical'', UPIStatus_REJECTED, ''Bank not UPI-enabled; switch bank.'')),
    (''17'', (''Customer cancellation'', ''Business'', UPIStatus_REJECTED, ''User canceled; reinitiate if needed.'')),
    (''20'', (''Invalid response code'', ''Technical'', UPIStatus_REJECTED, ''System error; retry.'')),
    (''200'', (''PA (address) attributes of demographic data did not match'', ''Business'', UPIStatus_REJECTED, ''Address mismatch; update.'')),
    (''21'', (''No action taken'', ''Technical'', UPIStatus_REJECTED, ''System decline; retry.'')),
    (''22'', (''Suspected malfunction'', ''Technical'', UPIStatus_REJECTED, ''Device/issue; try another app.'')),
    (''30'', (''Invalid message format'', ''Technical'', UPIStatus_REJECTED, ''XML/format error; system fix.'')),
    (''300'', (''Biometric data did not match'', ''Business'', UPIStatus_REJECTED, ''Fingerprint/iris fail; retry.'')),
    (''303'', (''Duplicate transaction ID'', ''Technical'', UPIStatus_REJECTED, ''Already processed; check status.'')),
    (''310'', (''Duplicate fingers used'', ''Technical'', UPIStatus_REJECTED, ''Biometric duplicate; use different.'')),
    (''311'', (''Duplicate irises used'', ''Technical'', UPIStatus_REJECTED, ''Same as above.'')),
    (''312'', (''FMR and FIR cannot be used in same transaction'', ''Technical'', UPIStatus_REJECTED, ''Biometric rule violation.'')),
    (''313'', (''Single FIR record contains more than one finger'', ''Technical'', UPIStatus_REJECTED, ''Format error in biometrics.'')),
    (''314'', (''Number of FMR/FIR should not exceed 10'', ''Technical'', UPIStatus_REJECTED, ''Too many biometrics.'')),
    (''315'', (''Number of IIR should not exceed 2'', ''Technical'', UPIStatus_REJECTED, ''Iris limit exceeded.'')),
    (''34'', (''Suspected fraud'', ''Business'', UPIStatus_REJECTED, ''Risk score high; contact bank.'')),
    (''36'', (''Restricted card'', ''Business'', UPIStatus_REJECTED, ''Card blocked; use another.'')),
    (''40'', (''Invalid debit account'', ''Technical'', UPIStatus_REJECTED, ''Wrong account; select correct.'')),
    (''400'', (''OTP validation failed'', ''Business'', UPIStatus_REJECTED, ''Wrong OTP; regenerate.'')),
    (''401'', (''Unauthorized request'', ''Technical'', UPIStatus_REJECTED, ''Auth fail; login again.'')),
    (''404'', (''Record not available'', ''Technical'', UPIStatus_REJECTED, ''No data; check inputs.'')),
    (''43'', (''Lost or stolen account/card'', ''Business'', UPIStatus_REJECTED, ''Security block; report to bank.'')),
    (''444'', (''Checksum error'', ''Technical'', UPIStatus_REJECTED, ''Data integrity issue; retry.'')),
    (''500'', (''Internal server error / Invalid encryption'', ''Technical'', UPIStatus_REJECTED, ''Server down; wait and retry.'')),
    (''510'', (''Invalid XML format'', ''Technical'', UPIStatus_REJECTED, ''Message format error.'')),
    (''AM'', (''MPIN not set by customer'', ''Business'', UPIStatus_REJECTED, ''Set PIN first.'')),
    (''B1'', (''Registered mobile number changed/removed'', ''Business'', UPIStatus_REJECTED, ''Update mobile with bank.'')),
    (''B3'', (''Transaction not permitted to account (e.g., minor, NRE)'', ''Business'', UPIStatus_REJECTED, ''Account restriction.'')),
    (''CA'', (''Compliance error code for acquirer'', ''Business'', UPIStatus_REJECTED, ''Regulatory issue at merchant.'')),
    (''CI'', (''Compliance error code for issuer'', ''Business'', UPIStatus_REJECTED, ''Regulatory issue at bank.'')),
    (''DF'', (''Duplicate RRN found (beneficiary)'', ''Technical'', UPIStatus_REJECTED, ''Duplicate txn; check history.'')),
    (''DT'', (''Duplicate RRN found (remitter)'', ''Technical'', UPIStatus_REJECTED, ''Same as above.'')),
    (''K1'', (''Suspected fraud / Declined based on risk score (remitter)'', ''Business'', UPIStatus_REJECTED, ''Fraud detection.'')),
    (''NO'', (''No original request found during debit/credit'', ''Technical'', UPIStatus_REJECTED, ''Missing prior txn.'')),
    (''PS'', (''Maximum balance exceeded (beneficiary bank)'', ''Business'', UPIStatus_REJECTED, ''Account full; withdraw first.'')),
    (''U13'', (''ACK not received or invalid'', ''Technical'', UPIStatus_REJECTED, ''Comms error (older code; now split).'')),
    (''U16'', (''Exceeded NPCI/bank limit'', ''Business'', UPIStatus_REJECTED, ''Limit hit; wait 24 hours.'')),
    (''U3'', (''Biometric data did not match (alternate)'', ''Business'', UPIStatus_REJECTED, ''Auth fail.'')),
    (''U30'', (''Generic failure (e.g., payer decline)'', ''Business'', UPIStatus_REJECTED, ''User declined collect.'')),
    (''U4'', (''Invalid encryption'', ''Technical'', UPIStatus_REJECTED, ''Security issue.'')),
    (''U5'', (''Invalid XML format (alternate)'', ''Technical'', UPIStatus_REJECTED, ''Format error.'')),
    (''X6'', (''Invalid merchant (acquirer)'', ''Business'', UPIStatus_REJECTED, ''Merchant invalid.'')),
    (''X7'', (''Merchant not reachable (acquirer)'', ''Technical'', UPIStatus_REJECTED, ''Connectivity issue.'')),
    (''XB'', (''Invalid transaction (remitter, no appropriate code)'', ''Technical'', UPIStatus_REJECTED, ''Catch-all remitter error.'')),
    (''XC'', (''Invalid transaction (beneficiary, no appropriate code)'', ''Technical'', UPIStatus_REJECTED, ''Catch-all beneficiary error.'')),
    (''XD'', (''Invalid amount (remitter)'', ''Technical'', UPIStatus_REJECTED, ''Amount error sender side.'')),
    (''XE'', (''Invalid amount (beneficiary)'', ''Technical'', UPIStatus_REJECTED, ''Amount error receiver side.'')),
    (''XF'', (''Format error (remitter)'', ''Technical'', UPIStatus_REJECTED, ''Invalid format sender.'')),
    (''XG'', (''Format error (beneficiary)'', ''Technical'', UPIStatus_REJECTED, ''Invalid format receiver.'')),
    (''XH'', (''Account does not exist (remitter)'', ''Business'', UPIStatus_REJECTED, ''Sender account invalid.'')),
    (''XI'', (''Account does not exist (beneficiary)'', ''Business'', UPIStatus_REJECTED, ''Receiver account invalid.'')),
    (''XJ'', (''Requested function not supported (remitter)'', ''Technical'', UPIStatus_REJECTED, ''Feature unavailable sender.'')),
    (''XK'', (''Requested function not supported (beneficiary)'', ''Technical'', UPIStatus_REJECTED, ''Feature unavailable receiver.'')),
    (''XL'', (''Expired card (remitter)'', ''Business'', UPIStatus_REJECTED, ''Card expired.'')),
    (''XM'', (''Expired card (beneficiary)'', ''Business'', UPIStatus_REJECTED, ''Same.'')),
    (''XN'', (''No card record (remitter)'', ''Technical'', UPIStatus_REJECTED, ''No card data.'')),
    (''XO'', (''No card record (beneficiary)'', ''Technical'', UPIStatus_REJECTED, ''Same.'')),
    (''XP'', (''Transaction not permitted to cardholder (remitter)'', ''Business'', UPIStatus_REJECTED, ''Permission denied.'')),
    (''XQ'', (''Transaction not permitted to cardholder (beneficiary)'', ''Business'', UPIStatus_REJECTED, ''Same.'')),
    (''XR'', (''Restricted card (remitter)'', ''Business'', UPIStatus_REJECTED, ''Restricted.'')),
    (''XS'', (''Restricted card (beneficiary)'', ''Business'', UPIStatus_REJECTED, ''Same.'')),
    (''XT'', (''Cut-off in process (remitter)'', ''Technical'', UPIStatus_REJECTED, ''Maintenance window.'')),
    (''XU'', (''Cut-off in process (beneficiary)'', ''Technical'', UPIStatus_REJECTED, ''Same.'')),
    (''XV'', (''Compliance violation (remitter)'', ''Business'', UPIStatus_REJECTED, ''Regulatory block.'')),
    (''XW'', (''Compliance violation (beneficiary)'', ''Business'', UPIStatus_REJECTED, ''Same.'')),
    (''XY'', (''Remitter CBS offline'', ''Technical'', UPIStatus_REJECTED, ''Sender bank down.'')),
    (''Y1'', (''Beneficiary CBS offline'', ''Technical'', UPIStatus_REJECTED, ''Receiver bank down.'')),
    (''YA'', (''Lost or stolen card (remitter)'', ''Business'', UPIStatus_REJECTED, ''Security.'')),
    (''YB'', (''Lost or stolen card (beneficiary)'', ''Business'', UPIStatus_REJECTED, ''Same.'')),
    (''YC'', (''Do not honour (remitter)'', ''Business'', UPIStatus_REJECTED, ''Bank decline.'')),
    (''YD'', (''Do not honour (beneficiary)'', ''Business'', UPIStatus_REJECTED, ''Same.''))
  ]"

definition MandateErrorCodes :: "(string \<times> string \<times> string \<times> string \<times> string) list" where
  "MandateErrorCodes = [
    (''AP01'', (''Account blocked'', ''Business'', UPIStatus_REJECTED, ''Account is blocked; contact bank.'')),
    (''AP02'', (''Account closed'', ''Business'', UPIStatus_REJECTED, ''Account is closed; use another account.'')),
    (''AP03'', (''Account frozen'', ''Business'', UPIStatus_REJECTED, ''Account frozen; contact bank.'')),
    (''AP04'', (''Account inoperative'', ''Business'', UPIStatus_REJECTED, ''Account dormant; activate with bank.'')),
    (''AP05'', (''No such account'', ''Business'', UPIStatus_REJECTED, ''Invalid account; check details.'')),
    (''AP06'', (''Not a CBS account no. or old account no. represented with CBS no'', ''Business'', UPIStatus_REJECTED, ''Invalid account format; update to CBS.'')),
    (''AP07'', (''Refer to the branch '' @ [CHR 0xE2, CHR 0x80, CHR 0x93] @ '' KYC not completed'', ''Business'', UPIStatus_REJECTED, ''Complete KYC at branch.'')),
    (''AP08'', (''Account holder name mismatch with CBS'', ''Business'', UPIStatus_REJECTED, ''Name mismatch; verify details.'')),
    (''AP09'', (''Account type in mandate is different from CBS'', ''Business'', UPIStatus_REJECTED, ''Account type mismatch; correct it.'')),
    (''AP10'', (''Amount exceeds e-mandate limit'', ''Business'', UPIStatus_REJECTED, ''Exceeds limit; reduce amount.'')),
    (''AP11'', (''Authentication failed'', ''Technical'', UPIStatus_REJECTED, ''Auth failed; retry authentication.'')),
    (''AP12'', (''Amount of EMI more than limit allowed for the account'', ''Business'', UPIStatus_REJECTED, ''EMI exceeds limit; adjust.'')),
    (''AP13'', (''Invalid monthly EMI amount. Full loan amount mentioned'', ''Technical'', UPIStatus_REJECTED, ''Invalid EMI; specify correct amount.'')),
    (''AP14'', (''Invalid user credentials'', ''Technical'', UPIStatus_REJECTED, ''Wrong credentials; re-enter.'')),
    (''AP15'', (''Mandate not registered '' @ [CHR 0xE2, CHR 0x80, CHR 0x93] @ '' not maintaining required balance'', ''Business'', UPIStatus_REJECTED, ''Insufficient balance for registration.'')),
    (''AP16'', (''Mandate not registered '' @ [CHR 0xE2, CHR 0x80, CHR 0x93] @ '' minor account'', ''Business'', UPIStatus_REJECTED, ''Minor account; not allowed.'')),
    (''AP17'', (''Mandate not registered '' @ [CHR 0xE2, CHR 0x80, CHR 0x93] @ '' NRE account'', ''Business'', UPIStatus_REJECTED, ''NRE account; not supported.'')),
    (''AP18'', (''Mandate registration not allowed for CC account'', ''Business'', UPIStatus_REJECTED, ''Credit card account; use savings/current.'')),
    (''AP19'', (''Mandate registration not allowed for PF account'', ''Business'', UPIStatus_REJECTED, ''PF account; not supported.'')),
    (''AP20'', (''Mandate registration not allowed for PPF account'', ''Business'', UPIStatus_REJECTED, ''PPF account; not supported.'')),
    (''AP21'', (''Payment stopped by attachment order'', ''Business'', UPIStatus_REJECTED, ''Stopped by order; contact bank.'')),
    (''AP22'', (''Payment stopped by court order'', ''Business'', UPIStatus_REJECTED, ''Court order; resolve legally.'')),
    (''AP23'', (''Transaction rejected or cancelled by the customer'', ''Business'', UPIStatus_REJECTED, ''Customer cancelled; reinitiate if needed.'')),
    (''AP24'', (''Account not in regular status'', ''Business'', UPIStatus_REJECTED, ''Irregular account; regularize.'')),
    (''AP25'', (''Withdrawal stopped owing to insolvency of account'', ''Business'', UPIStatus_REJECTED, ''Insolvency; contact bank.'')),
    (''AP26'', (''Withdrawal stopped owing to lunacy of account holder'', ''Business'', UPIStatus_REJECTED, ''Legal issue; resolve.'')),
    (''AP27'', (''Invalid frequency'', ''Technical'', UPIStatus_REJECTED, ''Wrong frequency; correct mandate.'')),
    (''AP28'', (''Mandate registration failed '' @ [CHR 0xE2, CHR 0x80, CHR 0x93] @ '' please contact your home branch'', ''Business'', UPIStatus_REJECTED, ''Contact branch for assistance.'')),
    (''AP29'', (''Technical errors or connectivity issues at backend'', ''Technical'', UPIStatus_REJECTED, ''Backend issue; retry later.'')),
    (''AP30'', (''Browser closed by customer mid-transaction'', ''Business'', UPIStatus_REJECTED, ''Transaction aborted; restart.'')),
    (''AP31'', (''Mandate registration not allowed for joint account'', ''Business'', UPIStatus_REJECTED, ''Joint account; use individual.'')),
    (''AP32'', (''Mandate registration not allowed for wallet account'', ''Business'', UPIStatus_REJECTED, ''Wallet; use bank account.'')),
    (''AP33'', (''User rejected the transaction on pre-login page'', ''Business'', UPIStatus_REJECTED, ''User rejected; try again.'')),
    (''AP34'', (''Account number not registered with netbanking facility'', ''Business'', UPIStatus_REJECTED, ''Enable netbanking.'')),
    (''AP35'', (''Debit card validation failed '' @ [CHR 0xE2, CHR 0x80, CHR 0x93] @ '' invalid card number'', ''Technical'', UPIStatus_REJECTED, ''Invalid card; check number.'')),
    (''AP36'', (''Debit card validation failed '' @ [CHR 0xE2, CHR 0x80, CHR 0x93] @ '' invalid expiry date'', ''Technical'', UPIStatus_REJECTED, ''Invalid expiry; check date.'')),
    (''AP37'', (''Debit card validation failed '' @ [CHR 0xE2, CHR 0x80, CHR 0x93] @ '' invalid PIN'', ''Technical'', UPIStatus_REJECTED, ''Wrong PIN; retry.'')),
    (''AP38'', (''Debit card validation failed '' @ [CHR 0xE2, CHR 0x80, CHR 0x93] @ '' invalid CVV'', ''Technical'', UPIStatus_REJECTED, ''Wrong CVV; check.'')),
    (''AP39'', (''OTP invalid'', ''Technical'', UPIStatus_REJECTED, ''Invalid OTP; regenerate.'')),
    (''AP40'', (''Maximum tries exceeded for OTP'', ''Technical'', UPIStatus_REJECTED, ''OTP tries exceeded; wait and retry.'')),
    (''AP41'', (''Time expired for OTP'', ''Technical'', UPIStatus_REJECTED, ''OTP expired; regenerate.'')),
    (''AP42'', (''Debit card not activated'', ''Business'', UPIStatus_REJECTED, ''Activate card.'')),
    (''AP43'', (''Debit card blocked'', ''Business'', UPIStatus_REJECTED, ''Card blocked; unblock.'')),
    (''AP44'', (''Debit card hotlisted'', ''Business'', UPIStatus_REJECTED, ''Card hotlisted; report lost.'')),
    (''AP45'', (''Debit card expired'', ''Business'', UPIStatus_REJECTED, ''Card expired; renew.'')),
    (''AP46'', (''No response received from customer during transaction'', ''Business'', UPIStatus_REJECTED, ''No response; retry transaction.'')),
    (''AP47'', (''Account number registered for only view rights in netbanking'', ''Business'', UPIStatus_REJECTED, ''View-only; enable transactions.'')),
    (''AP48'', (''Aadhaar number does not match with debtor'', ''Business'', UPIStatus_REJECTED, ''Aadhaar mismatch; verify.'')),
    (''AP65'', (''Account number not linked with given debit card'', ''Business'', UPIStatus_REJECTED, ''Link account with debit card.'')),
    (''AP66'', (''No response received from bank within prescribed time limit'', ''Technical'', UPIStatus_REJECTED, ''Bank timeout; retry later.''))
  ]"

definition DisputeReasonCodes :: "(string \<times> string \<times> string \<times> string \<times> string) list" where
  "DisputeReasonCodes = [
    (''U2'', (''Credit not Processed'', ''Chargeback'', ''T+5'', ''U2'')),
    (''U3'', (''Goods/Services not as described/defective'', ''Chargeback'', ''T+5'', ''U3'')),
    (''U4'', (''Duplicate Processing'', ''Chargeback'', ''T+5'', ''U4'')),
    (''U5'', (''Fraud'', ''Chargeback'', ''T+5'', ''U5'')),
    (''U6'', (''Payment not received'', ''Chargeback'', ''T+5'', ''U6'')),
    (''U7'', (''Incorrect Amount'', ''Chargeback'', ''T+5'', ''U7'')),
    (''U8'', (''Transaction Debited Twice'', ''Chargeback'', ''T+5'', ''U8'')),
    (''U9'', (''Paid by Alternate Means'', ''Chargeback'', ''T+5'', ''U9'')),
    (''U10'', (''Goods/Services not received'', ''Chargeback'', ''T+5'', ''U10'')),
    (''U11'', (''Other'', ''Chargeback'', ''T+5'', ''U11''))
  ]"

section \<open>Objects\<close>

text \<open>
  Reading a property of the object that a literal denotes: when a key is written more than
  once, the last value stands.
\<close>

definition object_literal :: "(string \<times> 'v) list \<Rightarrow> string \<rightharpoonup> 'v" where
  "object_literal ps = map_of (rev ps)"

text \<open>
  \<open>Object.keys\<close> lists the keys that are array indices first, in ascending numeric order,
  then the other keys in the order they were first written. An array index is the decimal
  numeral, without a leading zero, of a number below \<open>2^32 - 1\<close>: \<open>''10''\<close> and
  \<open>''100''\<close> are array indices, \<open>''00''\<close> and \<open>''091''\<close> are not.
\<close>

definition is_digit :: "char \<Rightarrow> bool" where
  "is_digit c = (48 \<le> (of_char c :: nat) \<and> (of_char c :: nat) \<le> 57)"

definition decimal :: "string \<Rightarrow> nat" where
  "decimal s = foldl (\<lambda>n c. 10 * n + (of_char c - 48)) 0 s"

definition is_array_index :: "string \<Rightarrow> bool" where
  "is_array_index s =
     (s \<noteq> [] \<and> list_all is_digit s \<and> (s = ''0'' \<or> hd s \<noteq> CHR ''0'') \<and>
      decimal s < 4294967295)"

definition Object_keys :: "(string \<times> 'v) list \<Rightarrow> string list" where
  "Object_keys obj =
     (let ks = rev (remdups (rev (map fst obj)))
      in sort_key decimal (filter is_array_index ks) @
         filter (\<lambda>k. \<not> is_array_index k) ks)"

definition Object_values :: "(string \<times> 'v) list \<Rightarrow> 'v list" where
  "Object_values obj = map (\<lambda>k. the (object_literal obj k)) (Object_keys obj)"

section \<open>Records\<close>

text \<open>
  The objects the functions return. Several of them share the properties \<open>code\<close> and
  \<open>description\<close>, so the records extend one another.
\<close>

record Coded =
  code :: string

record Described = Coded +
  description :: string

record CodeRecord = Described +
  type :: string
  status :: string
  handling :: string

record DisputeRecord = Described +
  disputeType :: string
  tat :: string
  flag :: string

section \<open>Lookup\<close>

text \<open>
  \<open>{...UPIErrorCodes, ...MandateErrorCodes}\<close> copies the properties of the first table,
  then those of the second, a later copy overwriting an earlier one: the map
  \<open>object_literal UPIErrorCodes ++ object_literal MandateErrorCodes\<close>. Every property
  value of the tables is an array, which is truthy, and no property that an object
  inherits has a name that \<open>toUpperCase\<close> returns (each has a small letter), so the test
  \<open>if (codes[upperCode])\<close> asks whether the key is one of the merged table.
\<close>

definition getCodeInfo :: "(string \<Rightarrow> string) \<Rightarrow> string \<Rightarrow> CodeRecord" where
  "getCodeInfo uc c =
     (let upperCode = toUpperCase uc c;
          codes = object_literal UPIErrorCodes ++ object_literal MandateErrorCodes
      in case codes upperCode of
           Some (description', type', status', handling') \<Rightarrow>
             \<lparr>code = upperCode, description = description', type = type',
              status = status', handling = handling'\<rparr>
         | None \<Rightarrow>
             \<lparr>code = upperCode, description = ''Unknown'', type = ''Technical'',
              status = UPIStatus_REJECTED, handling = ''Contact support''\<rparr>)"

definition getDisputeInfo :: "(string \<Rightarrow> string) \<Rightarrow> string \<Rightarrow> DisputeRecord" where
  "getDisputeInfo uc c =
     (let upperCode = toUpperCase uc c
      in case object_literal DisputeReasonCodes upperCode of
           Some (description', disputeType', tat', flag') \<Rightarrow>
             \<lparr>code = upperCode, description = description', disputeType = disputeType',
              tat = tat', flag = flag'\<rparr>
         | None \<Rightarrow>
             \<lparr>code = upperCode, description = ''Unknown Dispute'',
              disputeType = ''Chargeback'', tat = ''T+5'', flag = ''Unknown''\<rparr>)"

section \<open>Simulation\<close>

text \<open>
  \<open>throw new Error(...)\<close> is the value \<open>Inl (Error ...)\<close>. Calling \<open>toUpperCase\<close> on
  \<open>undefined\<close>, which is what an array read out of range gives, is \<open>Inl TypeError\<close>.
\<close>

datatype js_error = Error string | TypeError

record Transaction = CodeRecord +
  transactionType :: string

text \<open>\<open>{ transactionType, ...info }\<close>\<close>

definition with_transactionType :: "string \<Rightarrow> CodeRecord \<Rightarrow> Transaction" where
  "with_transactionType t info =
     \<lparr>code = code info, description = description info, type = type info,
      status = status info, handling = handling info, transactionType = t\<rparr>"

text \<open>
  Numbers are double-precision floating-point numbers, modelled by the real numbers they
  denote. Comparing two doubles and taking \<open>Math.floor\<close> of one are exact. The product
  of two doubles is the exact product rounded to a double, and the rounding is the
  parameter \<open>fl_times\<close>: what the engine returns for \<open>x * y\<close>. The literal \<open>0.8\<close> denotes the
  double next to it, \<open>3602879701896397 / 2^52\<close>.

  The properties of the simulation assume of a draw what \<open>Math.random()\<close> promises, a
  double from 0 up to but not including 1, the largest of which is \<open>1 - 1 / 2^53\<close>, and of
  the product of a draw and an array length what rounding to the nearest double gives: an
  error of at most the \<open>2^53\<close>-th part of the exact product. (The product of a double and a
  whole number is either exact or in the normal range, where this bound holds.)
\<close>

definition double_draw :: "real \<Rightarrow> bool" where
  "double_draw r = (0 \<le> r \<and> r \<le> 1 - 1 / 2 ^ 53)"

definition rounded_product :: "(real \<Rightarrow> real \<Rightarrow> real) \<Rightarrow> real \<Rightarrow> real \<Rightarrow> bool" where
  "rounded_product fl_times x y = (\<bar>fl_times x y - x * y\<bar> \<le> \<bar>x * y\<bar> / 2 ^ 53)"

text \<open>
  An omitted (or \<open>undefined\<close>) argument is \<open>None\<close> and takes the default of the parameter.
  The two calls of \<open>Math.random()\<close> are the two draws \<open>rand1\<close> and \<open>rand2\<close>; the second
  is only read on the failure path. \<open>failureCodes[i]\<close> is \<open>undefined\<close> when \<open>i\<close> is not
  an index of the array, and \<open>getCodeInfo(undefined)\<close> throws.
\<close>

definition simulateTransaction ::
  "(string \<Rightarrow> string) \<Rightarrow> (real \<Rightarrow> real \<Rightarrow> real) \<Rightarrow>
   string option \<Rightarrow> real option \<Rightarrow> real \<Rightarrow> real \<Rightarrow> js_error + Transaction" where
  "simulateTransaction uc fl_times transactionType_arg successRate_arg rand1 rand2 =
     (let transactionType =
            (case transactionType_arg of None \<Rightarrow> UPITransactionType_PAY | Some t \<Rightarrow> t);
          successRate =
            (case successRate_arg of
               None \<Rightarrow> 3602879701896397 / 4503599627370496 | Some r \<Rightarrow> r)
      in if transactionType \<notin> set (Object_values UPITransactionType)
         then Inl (Error ''Invalid transaction type'')
         else
           let codes = Object_keys UPIErrorCodes
           in if rand1 < successRate
              then Inr (with_transactionType transactionType (getCodeInfo uc ''00''))
              else
                let failureCodes = filter (\<lambda>c. c \<noteq> ''00'' \<and> c \<noteq> ''000'') codes;
                    i = \<lfloor>fl_times rand2 (real (length failureCodes))\<rfloor>
                in if 0 \<le> i \<and> i < int (length failureCodes)
                   then Inr (with_transactionType transactionType
                               (getCodeInfo uc (failureCodes ! nat i)))
                   else Inl TypeError)"

text \<open>The array \<open>failureCodes\<close> that \<open>simulateTransaction\<close> builds on the failure path.\<close>

definition failureCodes :: "string list" where
  "failureCodes = filter (\<lambda>c. c \<noteq> ''00'' \<and> c \<noteq> ''000'') (Object_keys UPIErrorCodes)"

definition simulateMandateRegistration ::
  "(string \<Rightarrow> string) \<Rightarrow> (real \<Rightarrow> real \<Rightarrow> real) \<Rightarrow>
   real option \<Rightarrow> real \<Rightarrow> real \<Rightarrow> js_error + Transaction" where
  "simulateMandateRegistration uc fl_times successRate_arg rand1 rand2 =
     (let successRate =
            (case successRate_arg of
               None \<Rightarrow> 3602879701896397 / 4503599627370496 | Some r \<Rightarrow> r);
          codes = Object_keys MandateErrorCodes
      in if rand1 < successRate
         then Inr (with_transactionType ''Mandate Registration'' (getCodeInfo uc ''00''))
         else
           let i = \<lfloor>fl_times rand2 (real (length codes))\<rfloor>
           in if 0 \<le> i \<and> i < int (length codes)
              then Inr (with_transactionType ''Mandate Registration''
                          (getCodeInfo uc (codes ! nat i)))
              else Inl TypeError)"

section \<open>Suggested actions\<close>

record EdgeCase = Coded +
  suggestedAction :: string

definition handleEdgeCase :: "(string \<Rightarrow> string) \<Rightarrow> string \<Rightarrow> EdgeCase" where
  "handleEdgeCase uc c =
     (let info = getCodeInfo uc c;
          suggestedAction = handling info;
          suggestedAction =
            (if status info = UPIStatus_PENDING
             then suggestedAction @ '' Monitor for resolution.''
             else if includes_str (type info) ''Technical'' \<and> status info = UPIStatus_REJECTED
             then suggestedAction @ '' Retry after a short delay.''
             else if includes_str (type info) ''Business''
             then suggestedAction @ '' User intervention required; do not retry automatically.''
             else suggestedAction)
      in \<lparr>code = code info, suggestedAction = suggestedAction\<rparr>)"

section \<open>Instances of the parameters for the examples\<close>

text \<open>
  An instance of the parameter \<open>uc\<close> for the examples: the upper case that Unicode gives
  to three strings, \<open>p\<close> and long s (\<open>C5 BF\<close>), \<open>c\<close> and dotless i (\<open>C4 B1\<close>), and
  \<open>stra\<close>, sharp s (\<open>C3 9F\<close>), \<open>e\<close>.
\<close>

definition uc_sample :: "string \<Rightarrow> string" where
  "uc_sample s =
     (if s = ''p'' @ [CHR 0xC5, CHR 0xBF] then ''PS''
      else if s = ''c'' @ [CHR 0xC4, CHR 0xB1] then ''CI''
      else if s = ''stra'' @ [CHR 0xC3, CHR 0x9F] @ ''e'' then ''STRASSE''
      else s)"

text \<open>
  An instance of the parameter \<open>fl_times\<close> for the examples: the exact product, but for
  the draw \<open>1682067330704643 / 2^52\<close> and the length 83, whose exact product,
  \<open>31 - 7 / 2^52\<close>, is not a double and is rounded to 31.
\<close>

definition fl_times_sample :: "real \<Rightarrow> real \<Rightarrow> real" where
  "fl_times_sample x y =
     (if x = 1682067330704643 / 4503599627370496 \<and> y = 83 then 31 else x * y)"

section \<open>Facts about strings\<close>

text \<open>Clearing or setting bit 5 of a letter is moving its code by 32.\<close>

lemma upper_char_code:
  "(of_char (upper_char c) :: nat) =
     (if 97 \<le> (of_char c :: nat) \<and> (of_char c :: nat) \<le> 122
      then of_char c - 32 else of_char c)"
  by (cases c) (simp add: upper_char_def)

lemma lower_char_code:
  "(of_char (lower_char c) :: nat) =
     (if 65 \<le> (of_char c :: nat) \<and> (of_char c :: nat) \<le> 90
      then of_char c + 32 else of_char c)"
  by (cases c) (simp add: lower_char_def)

section \<open>Facts about the tables\<close>

lemma UPIErrorCodes_keys:
  "map fst UPIErrorCodes =
     [''00'', ''000'', ''01'', ''02'', ''03'', ''04'', ''05'', ''091'', ''10'', ''100'',
      ''12'', ''125'', ''13'', ''14'', ''15'', ''17'', ''20'', ''200'', ''21'', ''22'',
      ''30'', ''300'', ''303'', ''310'', ''311'', ''312'', ''313'', ''314'', ''315'',
      ''34'', ''36'', ''40'', ''400'', ''401'', ''404'', ''43'', ''444'', ''500'', ''510'',
      ''AM'', ''B1'', ''B3'', ''CA'', ''CI'', ''DF'', ''DT'', ''K1'', ''NO'', ''PS'',
      ''U13'', ''U16'', ''U3'', ''U30'', ''U4'', ''U5'', ''X6'', ''X7'', ''XB'', ''XC'',
      ''XD'', ''XE'', ''XF'', ''XG'', ''XH'', ''XI'', ''XJ'', ''XK'', ''XL'', ''XM'',
      ''XN'', ''XO'', ''XP'', ''XQ'', ''XR'', ''XS'', ''XT'', ''XU'', ''XV'', ''XW'',
      ''XY'', ''Y1'', ''YA'', ''YB'', ''YC'', ''YD'']"
  by (simp add: UPIErrorCodes_def)

lemma MandateErrorCodes_keys:
  "map fst MandateErrorCodes =
     [''AP01'', ''AP02'', ''AP03'', ''AP04'', ''AP05'', ''AP06'', ''AP07'', ''AP08'',
      ''AP09'', ''AP10'', ''AP11'', ''AP12'', ''AP13'', ''AP14'', ''AP15'', ''AP16'',
      ''AP17'', ''AP18'', ''AP19'', ''AP20'', ''AP21'', ''AP22'', ''AP23'', ''AP24'',
      ''AP25'', ''AP26'', ''AP27'', ''AP28'', ''AP29'', ''AP30'', ''AP31'', ''AP32'',
      ''AP33'', ''AP34'', ''AP35'', ''AP36'', ''AP37'', ''AP38'', ''AP39'', ''AP40'',
      ''AP41'', ''AP42'', ''AP43'', ''AP44'', ''AP45'', ''AP46'', ''AP47'', ''AP48'',
      ''AP65'', ''AP66'']"
  by (simp add: MandateErrorCodes_def)

lemma DisputeReasonCodes_keys:
  "map fst DisputeReasonCodes =
     [''U2'', ''U3'', ''U4'', ''U5'', ''U6'', ''U7'', ''U8'', ''U9'', ''U10'', ''U11'']"
  by (simp add: DisputeReasonCodes_def)

lemma distinct_keys:
  "distinct (map fst MandateErrorCodes @ map fst UPIErrorCodes)"
  unfolding UPIErrorCodes_keys MandateErrorCodes_keys by simp

lemma distinct_dispute_keys: "distinct (map fst DisputeReasonCodes)"
  unfolding DisputeReasonCodes_keys by simp

lemma keys_upper:
  "list_all (\<lambda>k. toUpperCase uc k = k \<and> toUpperCase uc (toLowerCase lc k) = k)
     (map fst UPIErrorCodes @ map fst MandateErrorCodes @ map fst DisputeReasonCodes)"
  unfolding UPIErrorCodes_keys MandateErrorCodes_keys DisputeReasonCodes_keys
  by (simp add: toUpperCase_def toLowerCase_def is_ascii_def upper_char_def lower_char_def)

lemma entries_ok:
  "list_all (\<lambda>(k, d, t, s, h).
       d \<noteq> [] \<and>
       (s = UPIStatus_SUCCESS \<or> s = UPIStatus_PENDING \<or> s = UPIStatus_REJECTED) \<and>
       ((s = UPIStatus_SUCCESS) = (k = ''00'' \<or> k = ''000'')))
     (UPIErrorCodes @ MandateErrorCodes)"
  by (simp add: UPIErrorCodes_def MandateErrorCodes_def UPIStatus_SUCCESS_def
      UPIStatus_PENDING_def UPIStatus_REJECTED_def)

lemma mandate_entries_rejected:
  "list_all (\<lambda>(k, d, t, s, h). s = UPIStatus_REJECTED) MandateErrorCodes"
  by (simp add: MandateErrorCodes_def)

lemma general_entries_status:
  "list_all (\<lambda>(k, d, t, s, h).
       k = ''00'' \<or> k = ''000'' \<or> s = UPIStatus_REJECTED \<or> s = UPIStatus_PENDING)
     UPIErrorCodes"
  by (simp add: UPIErrorCodes_def)

lemma dispute_entries_chargeback:
  "list_all (\<lambda>(k, d, dt, t, f). dt = ''Chargeback'') DisputeReasonCodes"
  by (simp add: DisputeReasonCodes_def)

text \<open>No key is written twice in a table, so the object of a table is the table.\<close>

lemma object_literal_distinct:
  assumes "distinct (map fst ps)"
  shows "object_literal ps = map_of ps"
proof
  fix k
  have d: "distinct (map fst (rev ps))"
    using assms by (simp add: rev_map [symmetric])
  show "object_literal ps k = map_of ps k"
  proof (cases "map_of ps k")
    case None
    then have "map_of (rev ps) k = None"
      by (simp add: map_of_eq_None_iff)
    then show ?thesis
      using None by (simp add: object_literal_def)
  next
    case (Some v)
    then have "(k, v) \<in> set (rev ps)"
      using map_of_SomeD [of ps k v] by simp
    then have "map_of (rev ps) k = Some v"
      using d by (rule map_of_is_SomeI [rotated])
    then show ?thesis
      using Some by (simp add: object_literal_def)
  qed
qed

lemma object_tables:
  "object_literal UPIErrorCodes = map_of UPIErrorCodes"
  "object_literal MandateErrorCodes = map_of MandateErrorCodes"
  "object_literal DisputeReasonCodes = map_of DisputeReasonCodes"
  using distinct_keys distinct_dispute_keys by (simp_all add: object_literal_distinct)

text \<open>The merged object of \<open>getCodeInfo\<close> holds exactly the entries of the two tables.\<close>

lemma codes_Some_iff:
  "(object_literal UPIErrorCodes ++ object_literal MandateErrorCodes) k = Some v \<longleftrightarrow>
     (k, v) \<in> set UPIErrorCodes \<or> (k, v) \<in> set MandateErrorCodes"
proof -
  have d: "distinct (map fst (MandateErrorCodes @ UPIErrorCodes))"
    using distinct_keys by simp
  have "object_literal UPIErrorCodes ++ object_literal MandateErrorCodes =
        map_of (MandateErrorCodes @ UPIErrorCodes)"
    by (simp add: object_tables)
  then show ?thesis
    using map_of_eq_Some_iff [OF d, of k v] by auto
qed

lemma codes_None_iff:
  "(object_literal UPIErrorCodes ++ object_literal MandateErrorCodes) k = None \<longleftrightarrow>
     k \<notin> fst ` set UPIErrorCodes \<and> k \<notin> fst ` set MandateErrorCodes"
  by (auto simp: object_tables map_of_eq_None_iff)

lemma getCodeInfo_entry:
  assumes "(toUpperCase uc c, d, t, s, h) \<in> set UPIErrorCodes \<or>
           (toUpperCase uc c, d, t, s, h) \<in> set MandateErrorCodes"
  shows "getCodeInfo uc c =
           \<lparr>code = toUpperCase uc c, description = d, type = t, status = s, handling = h\<rparr>"
proof -
  have "(object_literal UPIErrorCodes ++ object_literal MandateErrorCodes) (toUpperCase uc c) = Some (d, t, s, h)"
    using assms codes_Some_iff [of "toUpperCase uc c" "(d, t, s, h)"] by simp
  then show ?thesis
    unfolding getCodeInfo_def Let_def by simp
qed

lemma getCodeInfo_default:
  assumes "toUpperCase uc c \<notin> fst ` set UPIErrorCodes"
      and "toUpperCase uc c \<notin> fst ` set MandateErrorCodes"
  shows "getCodeInfo uc c =
           \<lparr>code = toUpperCase uc c, description = ''Unknown'', type = ''Technical'',
            status = UPIStatus_REJECTED, handling = ''Contact support''\<rparr>"
proof -
  have "(object_literal UPIErrorCodes ++ object_literal MandateErrorCodes) (toUpperCase uc c) = None"
    using assms codes_None_iff [of "toUpperCase uc c"] by fast
  then show ?thesis
    unfolding getCodeInfo_def Let_def by (simp only: option.case)
qed

text \<open>Every call of \<open>getCodeInfo\<close> returns a table entry or the default record.\<close>

lemma getCodeInfo_cases:
  obtains (entry) d t s h where
      "(toUpperCase uc c, d, t, s, h) \<in> set (UPIErrorCodes @ MandateErrorCodes)"
      "getCodeInfo uc c =
         \<lparr>code = toUpperCase uc c, description = d, type = t, status = s, handling = h\<rparr>"
  | (unknown)
      "toUpperCase uc c \<notin> fst ` set UPIErrorCodes"
      "toUpperCase uc c \<notin> fst ` set MandateErrorCodes"
      "getCodeInfo uc c =
         \<lparr>code = toUpperCase uc c, description = ''Unknown'', type = ''Technical'',
          status = UPIStatus_REJECTED, handling = ''Contact support''\<rparr>"
proof (cases "(object_literal UPIErrorCodes ++ object_literal MandateErrorCodes) (toUpperCase uc c)")
  case None
  then have n: "toUpperCase uc c \<notin> fst ` set UPIErrorCodes \<and>
                toUpperCase uc c \<notin> fst ` set MandateErrorCodes"
    using codes_None_iff [of "toUpperCase uc c"] by fast
  show ?thesis
  proof (rule unknown)
    show "toUpperCase uc c \<notin> fst ` set UPIErrorCodes" using n by (rule conjunct1)
    show "toUpperCase uc c \<notin> fst ` set MandateErrorCodes" using n by (rule conjunct2)
    show "getCodeInfo uc c =
         \<lparr>code = toUpperCase uc c, description = ''Unknown'', type = ''Technical'',
          status = UPIStatus_REJECTED, handling = ''Contact support''\<rparr>"
      using n by (intro getCodeInfo_default) fast+
  qed
next
  case (Some v)
  obtain d t s h where v: "v = (d, t, s, h)"
    by (cases v) fast
  have m: "(toUpperCase uc c, d, t, s, h) \<in> set UPIErrorCodes \<or>
           (toUpperCase uc c, d, t, s, h) \<in> set MandateErrorCodes"
    using Some [unfolded v] codes_Some_iff [of "toUpperCase uc c" "(d, t, s, h)"] by simp
  show ?thesis
  proof (rule entry)
    show "(toUpperCase uc c, d, t, s, h) \<in> set (UPIErrorCodes @ MandateErrorCodes)"
      using m by (simp only: set_append Un_iff)
    show "getCodeInfo uc c =
         \<lparr>code = toUpperCase uc c, description = d, type = t, status = s, handling = h\<rparr>"
      using m by (rule getCodeInfo_entry)
  qed
qed

lemma general_key_set: "fst ` set UPIErrorCodes = set (map fst UPIErrorCodes)"
  by simp

lemma mandate_key_set: "fst ` set MandateErrorCodes = set (map fst MandateErrorCodes)"
  by simp

lemma dispute_key_set: "fst ` set DisputeReasonCodes = set (map fst DisputeReasonCodes)"
  by simp

lemma key_upper:
  assumes "k \<in> fst ` set UPIErrorCodes \<union> fst ` set MandateErrorCodes \<union>
               fst ` set DisputeReasonCodes"
  shows "toUpperCase uc k = k" and "toUpperCase uc (toLowerCase lc k) = k"
proof -
  have "k \<in> set (map fst UPIErrorCodes @ map fst MandateErrorCodes @
                   map fst DisputeReasonCodes)"
    using assms by auto
  then have "toUpperCase uc k = k \<and> toUpperCase uc (toLowerCase lc k) = k"
    using keys_upper unfolding list_all_iff by fast
  then show "toUpperCase uc k = k" and "toUpperCase uc (toLowerCase lc k) = k"
    by simp_all
qed

lemma getCodeInfo_upper: "toUpperCase uc a = toUpperCase uc b \<Longrightarrow> getCodeInfo uc a = getCodeInfo uc b"
  by (simp add: getCodeInfo_def)

lemma entry_ok:
  assumes "(k, d, t, s, h) \<in> set (UPIErrorCodes @ MandateErrorCodes)"
  shows "d \<noteq> []"
    and "s = UPIStatus_SUCCESS \<or> s = UPIStatus_PENDING \<or> s = UPIStatus_REJECTED"
    and "(s = UPIStatus_SUCCESS) = (k = ''00'' \<or> k = ''000'')"
proof -
  have "case (k, d, t, s, h) of (k, d, t, s, h) \<Rightarrow>
       d \<noteq> [] \<and>
       (s = UPIStatus_SUCCESS \<or> s = UPIStatus_PENDING \<or> s = UPIStatus_REJECTED) \<and>
       ((s = UPIStatus_SUCCESS) = (k = ''00'' \<or> k = ''000''))"
    using assms entries_ok unfolding list_all_iff by fast
  then show "d \<noteq> []"
    and "s = UPIStatus_SUCCESS \<or> s = UPIStatus_PENDING \<or> s = UPIStatus_REJECTED"
    and "(s = UPIStatus_SUCCESS) = (k = ''00'' \<or> k = ''000'')"
    by blast+
qed

text \<open>The records of the codes that the claims name.\<close>

lemma toUpperCase_00: "toUpperCase uc ''00'' = ''00''" "toUpperCase uc ''000'' = ''000''"
  by (simp_all add: toUpperCase_def is_ascii_def upper_char_def)

lemma getCodeInfo_00:
  "getCodeInfo uc ''00'' =
     \<lparr>code = ''00'', description = ''Approved or completed successfully'',
      type = ''Success'', status = UPIStatus_SUCCESS, handling = ''No action needed.''\<rparr>"
proof -
  have "(''00'', ''Approved or completed successfully'', ''Success'', UPIStatus_SUCCESS,
         ''No action needed.'') \<in> set UPIErrorCodes"
    by (simp add: UPIErrorCodes_def)
  then show ?thesis
    using getCodeInfo_entry [of uc "''00''"] by (simp add: toUpperCase_00)
qed

lemma getCodeInfo_000:
  "getCodeInfo uc ''000'' =
     \<lparr>code = ''000'', description = ''Success (alternate)'',
      type = ''Success'', status = UPIStatus_SUCCESS, handling = ''Same as 00.''\<rparr>"
proof -
  have "(''000'', ''Success (alternate)'', ''Success'', UPIStatus_SUCCESS,
         ''Same as 00.'') \<in> set UPIErrorCodes"
    by (simp add: UPIErrorCodes_def)
  then show ?thesis
    using getCodeInfo_entry [of uc "''000''"] by (simp add: toUpperCase_00)
qed

lemma getCodeInfo_04:
  "getCodeInfo uc ''04'' =
     \<lparr>code = ''04'', description = ''Technical decline / Balance insufficient'',
      type = ''Business/Technical'', status = UPIStatus_REJECTED,
      handling = ''Insufficient funds; top up account.''\<rparr>"
proof -
  have "(''04'', ''Technical decline / Balance insufficient'', ''Business/Technical'',
         UPIStatus_REJECTED, ''Insufficient funds; top up account.'') \<in> set UPIErrorCodes"
    by (simp add: UPIErrorCodes_def)
  moreover have "toUpperCase uc ''04'' = ''04''"
    by (simp add: toUpperCase_def is_ascii_def upper_char_def)
  ultimately show ?thesis
    using getCodeInfo_entry [of uc "''04''"] by simp
qed

lemma getCodeInfo_091:
  "getCodeInfo uc ''091'' =
     \<lparr>code = ''091'', description = ''Timeout'', type = ''Technical'',
      status = UPIStatus_PENDING, handling = ''Wait; do not reinitiate.''\<rparr>"
proof -
  have "(''091'', ''Timeout'', ''Technical'', UPIStatus_PENDING,
         ''Wait; do not reinitiate.'') \<in> set UPIErrorCodes"
    by (simp add: UPIErrorCodes_def)
  moreover have "toUpperCase uc ''091'' = ''091''"
    by (simp add: toUpperCase_def is_ascii_def upper_char_def)
  ultimately show ?thesis
    using getCodeInfo_entry [of uc "''091''"] by simp
qed

lemma getCodeInfo_u3:
  "getCodeInfo uc ''u3'' =
     \<lparr>code = ''U3'', description = ''Biometric data did not match (alternate)'',
      type = ''Business'', status = UPIStatus_REJECTED, handling = ''Auth fail.''\<rparr>"
proof -
  have "(''U3'', ''Biometric data did not match (alternate)'', ''Business'',
         UPIStatus_REJECTED, ''Auth fail.'') \<in> set UPIErrorCodes"
    by (simp add: UPIErrorCodes_def)
  moreover have "toUpperCase uc ''u3'' = ''U3''"
    by (simp add: toUpperCase_def is_ascii_def upper_char_def)
  ultimately show ?thesis
    using getCodeInfo_entry [of uc "''u3''"] by simp
qed

lemma unknown_zz9:
  "toUpperCase uc ''zz9'' = ''ZZ9''"
  "''ZZ9'' \<notin> fst ` set UPIErrorCodes"
  "''ZZ9'' \<notin> fst ` set MandateErrorCodes"
  "''ZZ9'' \<notin> fst ` set DisputeReasonCodes"
proof -
  show "toUpperCase uc ''zz9'' = ''ZZ9''"
    by (simp add: toUpperCase_def is_ascii_def upper_char_def)
  show "''ZZ9'' \<notin> fst ` set UPIErrorCodes"
    unfolding general_key_set UPIErrorCodes_keys by simp
  show "''ZZ9'' \<notin> fst ` set MandateErrorCodes"
    unfolding mandate_key_set MandateErrorCodes_keys by simp
  show "''ZZ9'' \<notin> fst ` set DisputeReasonCodes"
    unfolding dispute_key_set DisputeReasonCodes_keys by simp
qed

text \<open>\<open>includes\<close> is the test for a contiguous sublist.\<close>

lemma includes_str_sublist: "includes_str s sub = sublist sub s"
  by (induction s) (simp_all add: sublist_Cons_right)

lemma includes_str_iff: "includes_str s sub \<longleftrightarrow> (\<exists>p q. s = p @ sub @ q)"
  by (simp add: includes_str_sublist sublist_def)

lemma handleEdgeCase_unfold:
  "handleEdgeCase uc c =
     \<lparr>code = code (getCodeInfo uc c),
      suggestedAction = handling (getCodeInfo uc c) @
        (if status (getCodeInfo uc c) = UPIStatus_PENDING
         then '' Monitor for resolution.''
         else if includes_str (type (getCodeInfo uc c)) ''Technical'' \<and>
                 status (getCodeInfo uc c) = UPIStatus_REJECTED
         then '' Retry after a short delay.''
         else if includes_str (type (getCodeInfo uc c)) ''Business''
         then '' User intervention required; do not retry automatically.''
         else [])\<rparr>"
  by (simp add: handleEdgeCase_def Let_def)

text \<open>The dispute table.\<close>

lemma getDisputeInfo_entry:
  assumes "(toUpperCase uc c, d, dt, t, f) \<in> set DisputeReasonCodes"
  shows "getDisputeInfo uc c =
           \<lparr>code = toUpperCase uc c, description = d, disputeType = dt, tat = t, flag = f\<rparr>"
proof -
  have "object_literal DisputeReasonCodes (toUpperCase uc c) = Some (d, dt, t, f)"
    using assms distinct_dispute_keys by (simp add: object_tables)
  then show ?thesis
    unfolding getDisputeInfo_def Let_def by simp
qed

lemma getDisputeInfo_default:
  assumes "toUpperCase uc c \<notin> fst ` set DisputeReasonCodes"
  shows "getDisputeInfo uc c =
           \<lparr>code = toUpperCase uc c, description = ''Unknown Dispute'',
            disputeType = ''Chargeback'', tat = ''T+5'', flag = ''Unknown''\<rparr>"
proof -
  have "object_literal DisputeReasonCodes (toUpperCase uc c) = None"
    using assms by (simp add: object_tables map_of_eq_None_iff)
  then show ?thesis
    unfolding getDisputeInfo_def Let_def by simp
qed

text \<open>Property order and the simulation.\<close>

lemma Object_keys_UPIErrorCodes:
  "Object_keys UPIErrorCodes =
     [''10'', ''12'', ''13'', ''14'', ''15'', ''17'', ''20'', ''21'', ''22'', ''30'',
      ''34'', ''36'', ''40'', ''43'', ''100'', ''125'', ''200'', ''300'', ''303'', ''310'',
      ''311'', ''312'', ''313'', ''314'', ''315'', ''400'', ''401'', ''404'', ''444'',
      ''500'', ''510'', ''00'', ''000'', ''01'', ''02'', ''03'', ''04'', ''05'', ''091'',
      ''AM'', ''B1'', ''B3'', ''CA'', ''CI'', ''DF'', ''DT'', ''K1'', ''NO'', ''PS'',
      ''U13'', ''U16'', ''U3'', ''U30'', ''U4'', ''U5'', ''X6'', ''X7'', ''XB'', ''XC'',
      ''XD'', ''XE'', ''XF'', ''XG'', ''XH'', ''XI'', ''XJ'', ''XK'', ''XL'', ''XM'',
      ''XN'', ''XO'', ''XP'', ''XQ'', ''XR'', ''XS'', ''XT'', ''XU'', ''XV'', ''XW'',
      ''XY'', ''Y1'', ''YA'', ''YB'', ''YC'', ''YD'']"
  by (simp add: Object_keys_def UPIErrorCodes_keys is_array_index_def is_digit_def decimal_def)

lemma Object_keys_MandateErrorCodes: "Object_keys MandateErrorCodes = map fst MandateErrorCodes"
  by (simp add: Object_keys_def MandateErrorCodes_keys is_array_index_def is_digit_def
      decimal_def)

lemma Object_values_UPITransactionType:
  "Object_values UPITransactionType =
     [UPITransactionType_PAY, UPITransactionType_COLLECT, UPITransactionType_INTENT,
      UPITransactionType_AUTOPAY, UPITransactionType_LITE, UPITransactionType_ASBA]"
  by (simp add: Object_values_def Object_keys_def object_literal_def UPITransactionType_def
      is_array_index_def is_digit_def decimal_def)

lemma set_Object_keys: "set (Object_keys obj) = fst ` set obj"
  by (auto simp: Object_keys_def Let_def)

lemma distinct_Object_keys: "distinct (Object_keys obj)"
  by (auto simp: Object_keys_def Let_def)

lemma failureCodes_eq:
  "failureCodes =
     [''10'', ''12'', ''13'', ''14'', ''15'', ''17'', ''20'', ''21'', ''22'', ''30'',
      ''34'', ''36'', ''40'', ''43'', ''100'', ''125'', ''200'', ''300'', ''303'', ''310'',
      ''311'', ''312'', ''313'', ''314'', ''315'', ''400'', ''401'', ''404'', ''444'',
      ''500'', ''510'', ''01'', ''02'', ''03'', ''04'', ''05'', ''091'', ''AM'', ''B1'',
      ''B3'', ''CA'', ''CI'', ''DF'', ''DT'', ''K1'', ''NO'', ''PS'', ''U13'', ''U16'',
      ''U3'', ''U30'', ''U4'', ''U5'', ''X6'', ''X7'', ''XB'', ''XC'', ''XD'', ''XE'',
      ''XF'', ''XG'', ''XH'', ''XI'', ''XJ'', ''XK'', ''XL'', ''XM'', ''XN'', ''XO'',
      ''XP'', ''XQ'', ''XR'', ''XS'', ''XT'', ''XU'', ''XV'', ''XW'', ''XY'', ''Y1'',
      ''YA'', ''YB'', ''YC'', ''YD'']"
  by (simp add: failureCodes_def Object_keys_UPIErrorCodes)

lemma length_failureCodes: "length failureCodes = 83"
  by (simp add: failureCodes_eq)

lemma set_failureCodes: "set failureCodes = fst ` set UPIErrorCodes - {''00'', ''000''}"
  by (auto simp: failureCodes_def set_Object_keys)

lemma distinct_failureCodes: "distinct failureCodes"
  by (simp add: failureCodes_def distinct_Object_keys)

lemma length_mandate_keys: "length (Object_keys MandateErrorCodes) = 50"
  by (simp add: Object_keys_MandateErrorCodes MandateErrorCodes_keys)

text \<open>
  The rounded product of a draw and the length of an array, cut to a whole number, is an
  index of the array.
\<close>

lemma rounded_bounds:
  assumes "0 \<le> r" and "rounded_product fl_times r (real n)"
  shows "r * real n * (1 - 1 / 2 ^ 53) \<le> fl_times r (real n)"
    and "fl_times r (real n) \<le> r * real n * (1 + 1 / 2 ^ 53)"
proof -
  have x: "0 \<le> r * real n"
    using assms(1) by simp
  have "\<bar>fl_times r (real n) - r * real n\<bar> \<le> r * real n / 2 ^ 53"
    using assms(2) x unfolding rounded_product_def by simp
  then have "r * real n - r * real n / 2 ^ 53 \<le> fl_times r (real n)"
    and "fl_times r (real n) \<le> r * real n + r * real n / 2 ^ 53"
    by linarith+
  then show "r * real n * (1 - 1 / 2 ^ 53) \<le> fl_times r (real n)"
    and "fl_times r (real n) \<le> r * real n * (1 + 1 / 2 ^ 53)"
    by (simp_all add: algebra_simps)
qed

lemma rounded_index:
  assumes "double_draw r" and "rounded_product fl_times r (real n)" and "0 < n"
  shows "0 \<le> \<lfloor>fl_times r (real n)\<rfloor>" and "\<lfloor>fl_times r (real n)\<rfloor> < int n"
proof -
  have r: "0 \<le> r" "r \<le> 1 - 1 / 2 ^ 53"
    using assms(1) by (simp_all add: double_draw_def)
  note b = rounded_bounds [OF r(1) assms(2)]
  have "0 \<le> r * real n * (1 - 1 / 2 ^ 53)"
    using r(1) by simp
  then have "0 \<le> fl_times r (real n)"
    using b(1) by linarith
  then show "0 \<le> \<lfloor>fl_times r (real n)\<rfloor>"
    by simp
  have "r * real n \<le> (1 - 1 / 2 ^ 53) * real n"
    by (rule mult_right_mono [OF r(2)]) simp
  then have "r * real n * (1 + 1 / 2 ^ 53) \<le> (1 - 1 / 2 ^ 53) * real n * (1 + 1 / 2 ^ 53)"
    by (rule mult_right_mono) simp
  also have "\<dots> = real n * (1 - (1 / 2 ^ 53) * (1 / 2 ^ 53))"
    by (simp add: algebra_simps)
  also have "\<dots> < real n * 1"
    using assms(3) by (intro mult_strict_left_mono) simp_all
  finally have "fl_times r (real n) < real n"
    using b(2) by simp
  then have "fl_times r (real n) < of_int (int n)"
    by simp
  then show "\<lfloor>fl_times r (real n)\<rfloor> < int n"
    by (simp only: floor_less_iff)
qed

text \<open>
  The draws that select the index \<open>i\<close> are those of the interval \<open>[i / n, (i + 1) / n)\<close>,
  up to the rounding of the product at its two ends.
\<close>

lemma rounded_index_inner:
  assumes "0 \<le> r" and "rounded_product fl_times r (real n)" and "0 < n"
    and "real i / (real n * (1 - 1 / 2 ^ 53)) \<le> r"
    and "r < (real i + 1) / (real n * (1 + 1 / 2 ^ 53))"
  shows "nat \<lfloor>fl_times r (real n)\<rfloor> = i"
proof -
  note b = rounded_bounds [OF assms(1,2)]
  have a: "0 < real n * (1 - 1 / 2 ^ 53)" and c: "0 < real n * (1 + 1 / 2 ^ 53)"
    using assms(3) by simp_all
  have "real i \<le> r * (real n * (1 - 1 / 2 ^ 53))"
    using assms(4) a by (simp only: pos_divide_le_eq)
  then have lo: "real i \<le> fl_times r (real n)"
    using b(1) by (simp add: mult.assoc)
  have "r * (real n * (1 + 1 / 2 ^ 53)) < real i + 1"
    using assms(5) c by (simp only: pos_less_divide_eq)
  then have hi: "fl_times r (real n) < real i + 1"
    using b(2) by (simp add: mult.assoc)
  have "\<lfloor>fl_times r (real n)\<rfloor> = int i"
    using lo hi by (simp add: floor_eq_iff)
  then show ?thesis
    by simp
qed

lemma rounded_index_outer:
  assumes "0 \<le> r" and "rounded_product fl_times r (real n)" and "0 < n"
    and "nat \<lfloor>fl_times r (real n)\<rfloor> = i"
  shows "real i / (real n * (1 + 1 / 2 ^ 53)) \<le> r"
    and "r < (real i + 1) / (real n * (1 - 1 / 2 ^ 53))"
proof -
  note b = rounded_bounds [OF assms(1,2)]
  have a: "0 < real n * (1 - 1 / 2 ^ 53)" and c: "0 < real n * (1 + 1 / 2 ^ 53)"
    using assms(3) by simp_all
  have "0 \<le> r * real n * (1 - 1 / 2 ^ 53)"
    using assms(1) by simp
  then have "0 \<le> fl_times r (real n)"
    using b(1) by linarith
  then have "0 \<le> \<lfloor>fl_times r (real n)\<rfloor>"
    by simp
  then have "\<lfloor>fl_times r (real n)\<rfloor> = int i"
    using assms(4) by linarith
  then have lo: "real i \<le> fl_times r (real n)" and hi: "fl_times r (real n) < real i + 1"
    by (simp_all add: floor_eq_iff)
  have "real i \<le> r * (real n * (1 + 1 / 2 ^ 53))"
    using lo b(2) by (simp add: mult.assoc)
  then show "real i / (real n * (1 + 1 / 2 ^ 53)) \<le> r"
    using c by (simp only: pos_divide_le_eq)
  have "r * (real n * (1 - 1 / 2 ^ 53)) < real i + 1"
    using hi b(1) by (simp add: mult.assoc)
  then show "r < (real i + 1) / (real n * (1 - 1 / 2 ^ 53))"
    using a by (simp only: pos_less_divide_eq)
qed

lemma status_with_transactionType [simp]:
  "status (with_transactionType t info) = status info"
  "code (with_transactionType t info) = code info"
  "transactionType (with_transactionType t info) = t"
  by (simp_all add: with_transactionType_def)

lemma status_SUCCESS_iff:
  "status (getCodeInfo uc c) = UPIStatus_SUCCESS \<longleftrightarrow>
     toUpperCase uc c = ''00'' \<or> toUpperCase uc c = ''000''"
proof (cases uc c rule: getCodeInfo_cases)
  case (entry d t s h)
  then show ?thesis
    using entry_ok(3) [of "toUpperCase uc c" d t s h] by simp
next
  case unknown
  have "''00'' \<in> fst ` set UPIErrorCodes" and "''000'' \<in> fst ` set UPIErrorCodes"
    unfolding general_key_set UPIErrorCodes_keys by simp_all
  then have "toUpperCase uc c \<noteq> ''00''" and "toUpperCase uc c \<noteq> ''000''"
    using unknown(1) by metis+
  then show ?thesis
    using unknown(3) by (simp add: UPIStatus_SUCCESS_def UPIStatus_REJECTED_def)
qed

lemma failure_code:
  assumes "i < length failureCodes"
  shows "failureCodes ! i \<in> fst ` set UPIErrorCodes"
    and "failureCodes ! i \<noteq> ''00''" and "failureCodes ! i \<noteq> ''000''"
    and "status (getCodeInfo uc (failureCodes ! i)) \<noteq> UPIStatus_SUCCESS"
proof -
  have "failureCodes ! i \<in> set failureCodes"
    using assms by (rule nth_mem)
  then show k: "failureCodes ! i \<in> fst ` set UPIErrorCodes"
    and n: "failureCodes ! i \<noteq> ''00''" "failureCodes ! i \<noteq> ''000''"
    unfolding set_failureCodes by simp_all
  have "toUpperCase uc (failureCodes ! i) = failureCodes ! i"
    using k key_upper(1) [of "failureCodes ! i"] by simp
  then show "status (getCodeInfo uc (failureCodes ! i)) \<noteq> UPIStatus_SUCCESS"
    using n by (simp add: status_SUCCESS_iff)
qed

lemma simulateTransaction_invalid:
  assumes "(case a of None \<Rightarrow> UPITransactionType_PAY | Some t \<Rightarrow> t)
             \<notin> set (Object_values UPITransactionType)"
  shows "simulateTransaction uc fl_times a r rand1 rand2 = Inl (Error ''Invalid transaction type'')"
  using assms unfolding simulateTransaction_def Let_def by simp

lemma simulateTransaction_success:
  assumes "(case a of None \<Rightarrow> UPITransactionType_PAY | Some t \<Rightarrow> t)
             \<in> set (Object_values UPITransactionType)"
      and "rand1 < (case r of None \<Rightarrow> 3602879701896397 / 4503599627370496 | Some x \<Rightarrow> x)"
  shows "simulateTransaction uc fl_times a r rand1 rand2 =
           Inr (with_transactionType (case a of None \<Rightarrow> UPITransactionType_PAY | Some t \<Rightarrow> t)
                  (getCodeInfo uc ''00''))"
  using assms unfolding simulateTransaction_def Let_def by simp

lemma simulateTransaction_failure:
  assumes "(case a of None \<Rightarrow> UPITransactionType_PAY | Some t \<Rightarrow> t)
             \<in> set (Object_values UPITransactionType)"
      and "\<not> rand1 < (case r of None \<Rightarrow> 3602879701896397 / 4503599627370496 | Some x \<Rightarrow> x)"
      and "double_draw rand2" and "rounded_product fl_times rand2 83"
  shows "simulateTransaction uc fl_times a r rand1 rand2 =
           Inr (with_transactionType (case a of None \<Rightarrow> UPITransactionType_PAY | Some t \<Rightarrow> t)
                  (getCodeInfo uc (failureCodes ! nat \<lfloor>fl_times rand2 83\<rfloor>)))"
proof -
  have "0 \<le> \<lfloor>fl_times rand2 (real (length failureCodes))\<rfloor>"
    and "\<lfloor>fl_times rand2 (real (length failureCodes))\<rfloor> < int (length failureCodes)"
    using rounded_index [of rand2 fl_times "length failureCodes"] assms(3,4)
    by (simp_all add: length_failureCodes)
  then show ?thesis
    using assms(1,2) unfolding simulateTransaction_def Let_def failureCodes_def [symmetric]
    by (simp add: length_failureCodes)
qed

lemma simulateMandateRegistration_returns:
  assumes "double_draw rand2" and "rounded_product fl_times rand2 50"
  shows "\<exists>rec. simulateMandateRegistration uc fl_times r rand1 rand2 = Inr rec"
proof -
  have "0 \<le> \<lfloor>fl_times rand2 (real (length (Object_keys MandateErrorCodes)))\<rfloor>"
    and "\<lfloor>fl_times rand2 (real (length (Object_keys MandateErrorCodes)))\<rfloor>
           < int (length (Object_keys MandateErrorCodes))"
    using rounded_index [of rand2 fl_times "length (Object_keys MandateErrorCodes)"] assms
    by (simp_all add: length_mandate_keys)
  then show ?thesis
    unfolding simulateMandateRegistration_def Let_def by simp
qed

text \<open>The examples.\<close>

lemma uc_sample_upper:
  "toUpperCase uc_sample (''p'' @ [CHR 0xC5, CHR 0xBF]) = ''PS''"
  "toUpperCase uc_sample (''c'' @ [CHR 0xC4, CHR 0xB1]) = ''CI''"
  "toUpperCase uc_sample (''stra'' @ [CHR 0xC3, CHR 0x9F] @ ''e'') = ''STRASSE''"
  by (simp_all add: toUpperCase_def is_ascii_def uc_sample_def)

lemma unknown_STRASSE:
  "''STRASSE'' \<notin> fst ` set UPIErrorCodes"
  "''STRASSE'' \<notin> fst ` set MandateErrorCodes"
proof -
  show "''STRASSE'' \<notin> fst ` set UPIErrorCodes"
    unfolding general_key_set UPIErrorCodes_keys by simp
  show "''STRASSE'' \<notin> fst ` set MandateErrorCodes"
    unfolding mandate_key_set MandateErrorCodes_keys by simp
qed

lemma getCodeInfo_long_s:
  "getCodeInfo uc_sample (''p'' @ [CHR 0xC5, CHR 0xBF]) =
     \<lparr>code = ''PS'', description = ''Maximum balance exceeded (beneficiary bank)'',
      type = ''Business'', status = UPIStatus_REJECTED,
      handling = ''Account full; withdraw first.''\<rparr>"
proof -
  have "(''PS'', ''Maximum balance exceeded (beneficiary bank)'', ''Business'',
         UPIStatus_REJECTED, ''Account full; withdraw first.'') \<in> set UPIErrorCodes"
    by (simp add: UPIErrorCodes_def)
  then show ?thesis
    using getCodeInfo_entry [of uc_sample "''p'' @ [CHR 0xC5, CHR 0xBF]"]
    by (simp only: uc_sample_upper) simp
qed

lemma getCodeInfo_CI:
  "getCodeInfo uc c =
     \<lparr>code = ''CI'', description = ''Compliance error code for issuer'', type = ''Business'',
      status = UPIStatus_REJECTED, handling = ''Regulatory issue at bank.''\<rparr>"
  if "toUpperCase uc c = ''CI''"
proof -
  have "(''CI'', ''Compliance error code for issuer'', ''Business'', UPIStatus_REJECTED,
         ''Regulatory issue at bank.'') \<in> set UPIErrorCodes"
    by (simp add: UPIErrorCodes_def)
  then show ?thesis
    using getCodeInfo_entry [of uc c] that by simp
qed

lemma handleEdgeCase_dotless_i:
  "handleEdgeCase uc_sample (''c'' @ [CHR 0xC4, CHR 0xB1]) =
     \<lparr>code = ''CI'',
      suggestedAction = ''Regulatory issue at bank. User intervention required; do not retry automatically.''\<rparr>"
proof -
  have "\<not> includes_str ''Business'' ''Technical''" and "includes_str ''Business'' ''Business''"
    by simp_all
  then show ?thesis
    unfolding handleEdgeCase_unfold getCodeInfo_CI [OF uc_sample_upper(2)]
    by (simp add: UPIStatus_PENDING_def UPIStatus_REJECTED_def)
qed

lemma getCodeInfo_01:
  "getCodeInfo uc ''01'' =
     \<lparr>code = ''01'', description = ''Unable to process reversal / Account closed'',
      type = ''Business'', status = UPIStatus_REJECTED,
      handling = ''Reinitiate with same CRN; e.g., closed account in mandate presentation.''\<rparr>"
proof -
  have "(''01'', ''Unable to process reversal / Account closed'', ''Business'',
         UPIStatus_REJECTED,
         ''Reinitiate with same CRN; e.g., closed account in mandate presentation.'')
          \<in> set UPIErrorCodes"
    by (simp add: UPIErrorCodes_def)
  moreover have "toUpperCase uc ''01'' = ''01''"
    by (simp add: toUpperCase_def is_ascii_def upper_char_def)
  ultimately show ?thesis
    using getCodeInfo_entry [of uc "''01''"] by simp
qed

lemma fl_times_sample_draws:
  "double_draw (1 / 2)"
  "rounded_product fl_times_sample (1 / 2) 83"
  "rounded_product fl_times_sample (1 / 2) 50"
  "fl_times_sample (1 / 2) 83 = 83 / 2"
  "double_draw (1682067330704643 / 4503599627370496)"
  "rounded_product fl_times_sample (1682067330704643 / 4503599627370496) 83"
  "fl_times_sample (1682067330704643 / 4503599627370496) 83 = 31"
  by (simp_all add: double_draw_def rounded_product_def fl_times_sample_def)

section \<open>Properties of the lookup of error codes\<close>

text \<open>
  Claim C1. When the uppercased input is a key of neither the general-error table nor the
  mandate-error table, \<open>getCodeInfo\<close> returns the default record: description
  \<open>Unknown\<close>, category \<open>Technical\<close>, status Rejected, handling \<open>Contact support\<close>, and
  the uppercased input as code. This holds for every input string, whatever the engine
  returns as the upper case of a string outside ASCII. \<open>getCodeInfo\<close> is a total function
  into records: there is no error to signal.
\<close>

theorem getCodeInfo_unknown:
  assumes "toUpperCase uc c \<notin> fst ` set UPIErrorCodes"
      and "toUpperCase uc c \<notin> fst ` set MandateErrorCodes"
  shows "getCodeInfo uc c =
           \<lparr>code = toUpperCase uc c, description = ''Unknown'', type = ''Technical'',
            status = UPIStatus_REJECTED, handling = ''Contact support''\<rparr>"
  using assms by (rule getCodeInfo_default)

theorem getCodeInfo_unknown_witness:
  "toUpperCase uc_sample ''zz9'' \<notin> fst ` set UPIErrorCodes \<and>
   toUpperCase uc_sample ''zz9'' \<notin> fst ` set MandateErrorCodes \<and>
   getCodeInfo uc_sample ''zz9'' =
     \<lparr>code = ''ZZ9'', description = ''Unknown'', type = ''Technical'',
      status = ''Rejected'', handling = ''Contact support''\<rparr> \<and>
   toUpperCase uc_sample (''stra'' @ [CHR 0xC3, CHR 0x9F] @ ''e'')
     \<notin> fst ` set UPIErrorCodes \<and>
   toUpperCase uc_sample (''stra'' @ [CHR 0xC3, CHR 0x9F] @ ''e'')
     \<notin> fst ` set MandateErrorCodes \<and>
   getCodeInfo uc_sample (''stra'' @ [CHR 0xC3, CHR 0x9F] @ ''e'') =
     \<lparr>code = ''STRASSE'', description = ''Unknown'', type = ''Technical'',
      status = ''Rejected'', handling = ''Contact support''\<rparr>"
proof -
  have z: "toUpperCase uc_sample ''zz9'' \<notin> fst ` set UPIErrorCodes"
    "toUpperCase uc_sample ''zz9'' \<notin> fst ` set MandateErrorCodes"
    using unknown_zz9(1) [of uc_sample] unknown_zz9(2,3) by simp_all
  have s: "toUpperCase uc_sample (''stra'' @ [CHR 0xC3, CHR 0x9F] @ ''e'')
             \<notin> fst ` set UPIErrorCodes"
    "toUpperCase uc_sample (''stra'' @ [CHR 0xC3, CHR 0x9F] @ ''e'')
             \<notin> fst ` set MandateErrorCodes"
    unfolding uc_sample_upper by (rule unknown_STRASSE)+
  have 1: "getCodeInfo uc_sample ''zz9'' =
     \<lparr>code = ''ZZ9'', description = ''Unknown'', type = ''Technical'',
      status = ''Rejected'', handling = ''Contact support''\<rparr>"
    using getCodeInfo_unknown [OF z] unknown_zz9(1) [of uc_sample]
    by (simp add: UPIStatus_REJECTED_def)
  have 2: "getCodeInfo uc_sample (''stra'' @ [CHR 0xC3, CHR 0x9F] @ ''e'') =
     \<lparr>code = ''STRASSE'', description = ''Unknown'', type = ''Technical'',
      status = ''Rejected'', handling = ''Contact support''\<rparr>"
    using getCodeInfo_unknown [OF s]
    by (simp only: uc_sample_upper UPIStatus_REJECTED_def)
  show ?thesis
    using z s 1 2 by (intro conjI)
qed

text \<open>
  Claim C5. For every code \<open>c\<close> of the general-error table, \<open>getCodeInfo\<close> returns the same
  record for \<open>c\<close> and for \<open>c\<close> in lower case: the input is uppercased before the lookup.
\<close>

theorem getCodeInfo_case_insensitive:
  "\<forall>c \<in> fst ` set UPIErrorCodes. getCodeInfo uc c = getCodeInfo uc (toLowerCase lc c)"
proof
  fix c
  assume "c \<in> fst ` set UPIErrorCodes"
  then have "toUpperCase uc c = c" and "toUpperCase uc (toLowerCase lc c) = c"
    using key_upper(1) [of c uc] key_upper(2) [of c uc lc] by simp_all
  then show "getCodeInfo uc c = getCodeInfo uc (toLowerCase lc c)"
    by (intro getCodeInfo_upper) simp
qed

theorem getCodeInfo_case_insensitive_witness:
  "''U3'' \<in> fst ` set UPIErrorCodes \<and> toLowerCase (\<lambda>s. s) ''U3'' = ''u3'' \<and>
   getCodeInfo uc_sample ''U3'' = getCodeInfo uc_sample ''u3'' \<and>
   code (getCodeInfo uc_sample ''u3'') = ''U3''"
proof -
  have k: "''U3'' \<in> fst ` set UPIErrorCodes"
    unfolding general_key_set UPIErrorCodes_keys by simp
  have l: "toLowerCase (\<lambda>s. s) ''U3'' = ''u3''"
    by (simp add: toLowerCase_def is_ascii_def lower_char_def)
  have "getCodeInfo uc_sample ''U3'' = getCodeInfo uc_sample (toLowerCase (\<lambda>s. s) ''U3'')"
    using getCodeInfo_case_insensitive [of uc_sample "\<lambda>s. s"] k by (rule bspec)
  then show ?thesis
    using k l by (simp add: getCodeInfo_u3)
qed

text \<open>
  Claim C8. Whatever the input, the record that \<open>getCodeInfo\<close> returns has a description
  that is not empty and a status that is one of the three values of \<open>UPIStatus\<close>; the
  codes \<open>00\<close> and \<open>000\<close> have the status Success.
\<close>

theorem getCodeInfo_wellformed:
  "description (getCodeInfo uc c) \<noteq> [] \<and>
   status (getCodeInfo uc c) \<in> {UPIStatus_SUCCESS, UPIStatus_PENDING, UPIStatus_REJECTED} \<and>
   status (getCodeInfo uc ''00'') = UPIStatus_SUCCESS \<and>
   status (getCodeInfo uc ''000'') = UPIStatus_SUCCESS"
proof (cases uc c rule: getCodeInfo_cases)
  case (entry d t s h)
  then show ?thesis
    using entry_ok(1,2) [of "toUpperCase uc c" d t s h]
    by (auto simp: getCodeInfo_00 getCodeInfo_000)
next
  case unknown
  then show ?thesis
    by (simp add: getCodeInfo_00 getCodeInfo_000)
qed

text \<open>
  Claim C9. The status of \<open>getCodeInfo c\<close> is Success exactly when the uppercased \<open>c\<close> is
  \<open>00\<close> or \<open>000\<close>. These two are the only entries of the two tables with the status
  Success; every entry of the mandate-error table is Rejected, and every other entry of
  the general-error table is Rejected or Pending.
\<close>

theorem getCodeInfo_success_iff:
  "(status (getCodeInfo uc c) = UPIStatus_SUCCESS \<longleftrightarrow>
      toUpperCase uc c = ''00'' \<or> toUpperCase uc c = ''000'') \<and>
   (\<forall>(k, d, t, s, h) \<in> set (UPIErrorCodes @ MandateErrorCodes).
      (s = UPIStatus_SUCCESS) = (k = ''00'' \<or> k = ''000'')) \<and>
   (\<forall>(k, d, t, s, h) \<in> set MandateErrorCodes. s = UPIStatus_REJECTED) \<and>
   (\<forall>(k, d, t, s, h) \<in> set UPIErrorCodes.
      k = ''00'' \<or> k = ''000'' \<or> s = UPIStatus_REJECTED \<or> s = UPIStatus_PENDING)"
proof (intro conjI)
  show "status (getCodeInfo uc c) = UPIStatus_SUCCESS \<longleftrightarrow>
          toUpperCase uc c = ''00'' \<or> toUpperCase uc c = ''000''"
    by (rule status_SUCCESS_iff)
  show "\<forall>(k, d, t, s, h) \<in> set (UPIErrorCodes @ MandateErrorCodes).
          (s = UPIStatus_SUCCESS) = (k = ''00'' \<or> k = ''000'')"
    using entry_ok(3) by fast
  show "\<forall>(k, d, t, s, h) \<in> set MandateErrorCodes. s = UPIStatus_REJECTED"
    using mandate_entries_rejected unfolding list_all_iff .
  show "\<forall>(k, d, t, s, h) \<in> set UPIErrorCodes.
          k = ''00'' \<or> k = ''000'' \<or> s = UPIStatus_REJECTED \<or> s = UPIStatus_PENDING"
    using general_entries_status unfolding list_all_iff .
qed

theorem getCodeInfo_success_iff_witness:
  "status (getCodeInfo uc_sample ''00'') = UPIStatus_SUCCESS \<and>
   toUpperCase uc_sample ''00'' = ''00'' \<and>
   status (getCodeInfo uc_sample ''091'') \<noteq> UPIStatus_SUCCESS \<and>
   status (getCodeInfo uc_sample ''zz9'') \<noteq> UPIStatus_SUCCESS \<and>
   status (getCodeInfo uc_sample (''p'' @ [CHR 0xC5, CHR 0xBF])) \<noteq> UPIStatus_SUCCESS"
proof -
  have "toUpperCase uc_sample ''091'' = ''091''"
    by (simp add: toUpperCase_def is_ascii_def upper_char_def)
  then show ?thesis
    using getCodeInfo_success_iff [of uc_sample "''00''"]
      getCodeInfo_success_iff [of uc_sample "''091''"]
      getCodeInfo_success_iff [of uc_sample "''zz9''"]
      getCodeInfo_success_iff [of uc_sample "''p'' @ [CHR 0xC5, CHR 0xBF]"]
      unknown_zz9(1) [of uc_sample] toUpperCase_00(1) [of uc_sample] uc_sample_upper(1)
    by simp
qed

text \<open>
  Claim C2. No code is written twice in the general-error table or in the mandate-error
  table. For every code of the general-error table \<open>getCodeInfo\<close> returns the record of
  that table (this is stated for every key of the table, also one that the mandate-error
  table would have too; the two tables share no code), and for every code of the
  mandate-error table it returns the record of the mandate-error table.
\<close>

theorem getCodeInfo_table_records:
  "distinct (map fst UPIErrorCodes) \<and> distinct (map fst MandateErrorCodes) \<and>
   fst ` set UPIErrorCodes \<inter> fst ` set MandateErrorCodes = {} \<and>
   (\<forall>(k, d, t, s, h) \<in> set UPIErrorCodes.
      getCodeInfo uc k =
        \<lparr>code = k, description = d, type = t, status = s, handling = h\<rparr>) \<and>
   (\<forall>(k, d, t, s, h) \<in> set MandateErrorCodes.
      getCodeInfo uc k =
        \<lparr>code = k, description = d, type = t, status = s, handling = h\<rparr>)"
proof (intro conjI)
  show "distinct (map fst UPIErrorCodes)" and "distinct (map fst MandateErrorCodes)"
    using distinct_keys by simp_all
  show "fst ` set UPIErrorCodes \<inter> fst ` set MandateErrorCodes = {}"
    using distinct_keys by auto
  show "\<forall>(k, d, t, s, h) \<in> set UPIErrorCodes.
          getCodeInfo uc k =
            \<lparr>code = k, description = d, type = t, status = s, handling = h\<rparr>"
  proof (clarify)
    fix k d t s h
    assume m: "(k, d, t, s, h) \<in> set UPIErrorCodes"
    then have "k \<in> fst ` set UPIErrorCodes"
      by (rule image_eqI [rotated]) simp
    then have "toUpperCase uc k = k"
      using key_upper(1) [of k uc] by simp
    then show "getCodeInfo uc k =
                 \<lparr>code = k, description = d, type = t, status = s, handling = h\<rparr>"
      using m getCodeInfo_entry [of uc k d t s h] by simp
  qed
  show "\<forall>(k, d, t, s, h) \<in> set MandateErrorCodes.
          getCodeInfo uc k =
            \<lparr>code = k, description = d, type = t, status = s, handling = h\<rparr>"
  proof (clarify)
    fix k d t s h
    assume m: "(k, d, t, s, h) \<in> set MandateErrorCodes"
    then have "k \<in> fst ` set MandateErrorCodes"
      by (rule image_eqI [rotated]) simp
    then have "toUpperCase uc k = k"
      using key_upper(1) [of k uc] by simp
    then show "getCodeInfo uc k =
                 \<lparr>code = k, description = d, type = t, status = s, handling = h\<rparr>"
      using m getCodeInfo_entry [of uc k d t s h] by simp
  qed
qed

theorem getCodeInfo_table_records_witness:
  "(''04'', ''Technical decline / Balance insufficient'', ''Business/Technical'',
     UPIStatus_REJECTED, ''Insufficient funds; top up account.'') \<in> set UPIErrorCodes \<and>
   getCodeInfo uc_sample ''04'' =
     \<lparr>code = ''04'', description = ''Technical decline / Balance insufficient'',
      type = ''Business/Technical'', status = UPIStatus_REJECTED,
      handling = ''Insufficient funds; top up account.''\<rparr> \<and>
   (''AP65'', ''Account number not linked with given debit card'', ''Business'',
     UPIStatus_REJECTED, ''Link account with debit card.'') \<in> set MandateErrorCodes \<and>
   getCodeInfo uc_sample ''AP65'' =
     \<lparr>code = ''AP65'', description = ''Account number not linked with given debit card'',
      type = ''Business'', status = UPIStatus_REJECTED,
      handling = ''Link account with debit card.''\<rparr>"
proof -
  have g: "(''04'', ''Technical decline / Balance insufficient'', ''Business/Technical'',
     UPIStatus_REJECTED, ''Insufficient funds; top up account.'') \<in> set UPIErrorCodes"
    by (simp add: UPIErrorCodes_def)
  have m: "(''AP65'', ''Account number not linked with given debit card'', ''Business'',
     UPIStatus_REJECTED, ''Link account with debit card.'') \<in> set MandateErrorCodes"
    by (simp add: MandateErrorCodes_def)
  note r = getCodeInfo_table_records [of uc_sample]
  note rg = r [THEN conjunct2, THEN conjunct2, THEN conjunct2, THEN conjunct1]
  note rm = r [THEN conjunct2, THEN conjunct2, THEN conjunct2, THEN conjunct2]
  have 1: "getCodeInfo uc_sample ''04'' =
     \<lparr>code = ''04'', description = ''Technical decline / Balance insufficient'',
      type = ''Business/Technical'', status = UPIStatus_REJECTED,
      handling = ''Insufficient funds; top up account.''\<rparr>"
    using bspec [OF rg g] by simp
  have 2: "getCodeInfo uc_sample ''AP65'' =
     \<lparr>code = ''AP65'', description = ''Account number not linked with given debit card'',
      type = ''Business'', status = UPIStatus_REJECTED,
      handling = ''Link account with debit card.''\<rparr>"
    using bspec [OF rm m] by simp
  show ?thesis
    using g m 1 2 by (intro conjI)
qed

section \<open>Properties of the lookup of dispute codes\<close>

text \<open>
  Claim C7. \<open>getDisputeInfo\<close> reads the dispute table only. For every code of the table
  it returns the record of the table, whose dispute type is \<open>Chargeback\<close>; when the
  uppercased input is not a code of the table it returns the default record: description
  \<open>Unknown Dispute\<close>, dispute type \<open>Chargeback\<close>, turnaround time \<open>T+5\<close>, flag
  \<open>Unknown\<close>. It is a total function into records.
\<close>

theorem getDisputeInfo_lookup:
  "(\<forall>(k, d, dt, t, f) \<in> set DisputeReasonCodes.
      getDisputeInfo uc k =
        \<lparr>code = k, description = d, disputeType = dt, tat = t, flag = f\<rparr> \<and>
      dt = ''Chargeback'') \<and>
   (toUpperCase uc c \<notin> fst ` set DisputeReasonCodes \<longrightarrow>
      getDisputeInfo uc c =
        \<lparr>code = toUpperCase uc c, description = ''Unknown Dispute'',
         disputeType = ''Chargeback'', tat = ''T+5'', flag = ''Unknown''\<rparr>)"
proof (intro conjI)
  show "\<forall>(k, d, dt, t, f) \<in> set DisputeReasonCodes.
      getDisputeInfo uc k =
        \<lparr>code = k, description = d, disputeType = dt, tat = t, flag = f\<rparr> \<and>
      dt = ''Chargeback''"
  proof (clarify)
    fix k d dt t f
    assume m: "(k, d, dt, t, f) \<in> set DisputeReasonCodes"
    then have "k \<in> fst ` set DisputeReasonCodes"
      by (rule image_eqI [rotated]) simp
    then have "toUpperCase uc k = k"
      using key_upper(1) [of k uc] by simp
    then have "getDisputeInfo uc k =
        \<lparr>code = k, description = d, disputeType = dt, tat = t, flag = f\<rparr>"
      using m getDisputeInfo_entry [of uc k d dt t f] by simp
    moreover have "dt = ''Chargeback''"
      using m dispute_entries_chargeback unfolding list_all_iff by fast
    ultimately show "getDisputeInfo uc k =
        \<lparr>code = k, description = d, disputeType = dt, tat = t, flag = f\<rparr> \<and>
      dt = ''Chargeback''"
      by simp
  qed
  show "toUpperCase uc c \<notin> fst ` set DisputeReasonCodes \<longrightarrow>
      getDisputeInfo uc c =
        \<lparr>code = toUpperCase uc c, description = ''Unknown Dispute'',
         disputeType = ''Chargeback'', tat = ''T+5'', flag = ''Unknown''\<rparr>"
    using getDisputeInfo_default by simp
qed

theorem getDisputeInfo_lookup_witness:
  "(''U3'', ''Goods/Services not as described/defective'', ''Chargeback'', ''T+5'', ''U3'')
     \<in> set DisputeReasonCodes \<and>
   getDisputeInfo uc_sample ''U3'' =
     \<lparr>code = ''U3'', description = ''Goods/Services not as described/defective'',
      disputeType = ''Chargeback'', tat = ''T+5'', flag = ''U3''\<rparr> \<and>
   toUpperCase uc_sample ''zz9'' \<notin> fst ` set DisputeReasonCodes \<and>
   getDisputeInfo uc_sample ''zz9'' =
     \<lparr>code = ''ZZ9'', description = ''Unknown Dispute'',
      disputeType = ''Chargeback'', tat = ''T+5'', flag = ''Unknown''\<rparr>"
proof -
  have m: "(''U3'', ''Goods/Services not as described/defective'', ''Chargeback'', ''T+5'',
            ''U3'') \<in> set DisputeReasonCodes"
    by (simp add: DisputeReasonCodes_def)
  note r = getDisputeInfo_lookup [of uc_sample "''zz9''"]
  have 1: "getDisputeInfo uc_sample ''U3'' =
     \<lparr>code = ''U3'', description = ''Goods/Services not as described/defective'',
      disputeType = ''Chargeback'', tat = ''T+5'', flag = ''U3''\<rparr>"
    using bspec [OF r [THEN conjunct1] m] by simp
  have 2: "toUpperCase uc_sample ''zz9'' \<notin> fst ` set DisputeReasonCodes"
    using unknown_zz9(1) [of uc_sample] unknown_zz9(4) by simp
  have 3: "getDisputeInfo uc_sample ''zz9'' =
     \<lparr>code = ''ZZ9'', description = ''Unknown Dispute'',
      disputeType = ''Chargeback'', tat = ''T+5'', flag = ''Unknown''\<rparr>"
    using r [THEN conjunct2, rule_format, OF 2] unfolding unknown_zz9(1) [of uc_sample] .
  show ?thesis
    using m 1 2 3 by (intro conjI)
qed

section \<open>Properties of the suggested actions\<close>

text \<open>
  Claim C3. \<open>handleEdgeCase\<close> returns the code of the resolved record and its handling
  text followed by one suffix, the first that applies: \<open>Monitor for resolution.\<close> when the
  status is Pending; else \<open>Retry after a short delay.\<close> when the category contains
  \<open>Technical\<close> and the status is Rejected; else
  \<open>User intervention required; do not retry automatically.\<close> when the category contains
  \<open>Business\<close>; else nothing. The suffix is appended after a space. A record of category
  \<open>Business/Technical\<close> and status Rejected gets the retry text, and the code \<open>091\<close> the
  monitoring text.
\<close>

theorem handleEdgeCase_precedence:
  "handleEdgeCase uc c =
     \<lparr>code = code (getCodeInfo uc c),
      suggestedAction = handling (getCodeInfo uc c) @
        (if status (getCodeInfo uc c) = UPIStatus_PENDING
         then '' Monitor for resolution.''
         else if (\<exists>p q. type (getCodeInfo uc c) = p @ ''Technical'' @ q) \<and>
                 status (getCodeInfo uc c) = UPIStatus_REJECTED
         then '' Retry after a short delay.''
         else if (\<exists>p q. type (getCodeInfo uc c) = p @ ''Business'' @ q)
         then '' User intervention required; do not retry automatically.''
         else [])\<rparr> \<and>
   (type (getCodeInfo uc c) = ''Business/Technical'' \<and>
    status (getCodeInfo uc c) = UPIStatus_REJECTED \<longrightarrow>
      suggestedAction (handleEdgeCase uc c) =
        handling (getCodeInfo uc c) @ '' Retry after a short delay.'') \<and>
   handleEdgeCase uc ''091'' =
     \<lparr>code = ''091'', suggestedAction = ''Wait; do not reinitiate. Monitor for resolution.''\<rparr>"
proof (intro conjI impI)
  show "handleEdgeCase uc c =
     \<lparr>code = code (getCodeInfo uc c),
      suggestedAction = handling (getCodeInfo uc c) @
        (if status (getCodeInfo uc c) = UPIStatus_PENDING
         then '' Monitor for resolution.''
         else if (\<exists>p q. type (getCodeInfo uc c) = p @ ''Technical'' @ q) \<and>
                 status (getCodeInfo uc c) = UPIStatus_REJECTED
         then '' Retry after a short delay.''
         else if (\<exists>p q. type (getCodeInfo uc c) = p @ ''Business'' @ q)
         then '' User intervention required; do not retry automatically.''
         else [])\<rparr>"
    unfolding handleEdgeCase_unfold [of uc c] includes_str_iff ..
next
  assume a: "type (getCodeInfo uc c) = ''Business/Technical'' \<and>
             status (getCodeInfo uc c) = UPIStatus_REJECTED"
  have "includes_str ''Business/Technical'' ''Technical''"
    by simp
  then show "suggestedAction (handleEdgeCase uc c) =
        handling (getCodeInfo uc c) @ '' Retry after a short delay.''"
    using a unfolding handleEdgeCase_unfold [of uc c]
    by (simp add: UPIStatus_PENDING_def UPIStatus_REJECTED_def)
next
  have "includes_str ''Technical'' ''Technical''"
    by simp
  then show "handleEdgeCase uc ''091'' =
     \<lparr>code = ''091'', suggestedAction = ''Wait; do not reinitiate. Monitor for resolution.''\<rparr>"
    unfolding handleEdgeCase_unfold [of uc "''091''"] getCodeInfo_091 by simp
qed

theorem handleEdgeCase_precedence_witness:
  "type (getCodeInfo uc_sample ''04'') = ''Business/Technical'' \<and>
   status (getCodeInfo uc_sample ''04'') = UPIStatus_REJECTED \<and>
   suggestedAction (handleEdgeCase uc_sample ''04'') =
     ''Insufficient funds; top up account. Retry after a short delay.''"
proof -
  have h: "type (getCodeInfo uc_sample ''04'') = ''Business/Technical'' \<and>
           status (getCodeInfo uc_sample ''04'') = UPIStatus_REJECTED"
    by (simp add: getCodeInfo_04)
  have "suggestedAction (handleEdgeCase uc_sample ''04'') =
          handling (getCodeInfo uc_sample ''04'') @ '' Retry after a short delay.''"
    using handleEdgeCase_precedence [of uc_sample "''04''", THEN conjunct2, THEN conjunct1] h
    by (rule mp)
  then have "suggestedAction (handleEdgeCase uc_sample ''04'') =
     ''Insufficient funds; top up account. Retry after a short delay.''"
    by (simp add: getCodeInfo_04)
  then show ?thesis
    using h by simp
qed

text \<open>
  Claim C10. When the uppercased input is a key of neither error table, \<open>handleEdgeCase\<close>
  returns the uppercased input as code and the suggested action
  \<open>Contact support Retry after a short delay.\<close>: the default record is of category
  \<open>Technical\<close> and status Rejected, which is the retry branch. This holds for every
  input string, whatever the engine returns as the upper case of a string outside ASCII.
\<close>

theorem handleEdgeCase_unknown:
  assumes "toUpperCase uc c \<notin> fst ` set UPIErrorCodes"
      and "toUpperCase uc c \<notin> fst ` set MandateErrorCodes"
  shows "handleEdgeCase uc c =
           \<lparr>code = toUpperCase uc c,
            suggestedAction = ''Contact support Retry after a short delay.''\<rparr>"
proof -
  have "includes_str ''Technical'' ''Technical''"
    by simp
  then show ?thesis
    unfolding handleEdgeCase_unfold [of uc c] getCodeInfo_default [OF assms]
    by (simp add: UPIStatus_PENDING_def UPIStatus_REJECTED_def)
qed

theorem handleEdgeCase_unknown_witness:
  "toUpperCase uc_sample ''zz9'' \<notin> fst ` set UPIErrorCodes \<and>
   toUpperCase uc_sample ''zz9'' \<notin> fst ` set MandateErrorCodes \<and>
   handleEdgeCase uc_sample ''zz9'' =
     \<lparr>code = ''ZZ9'', suggestedAction = ''Contact support Retry after a short delay.''\<rparr> \<and>
   toUpperCase uc_sample (''stra'' @ [CHR 0xC3, CHR 0x9F] @ ''e'')
     \<notin> fst ` set UPIErrorCodes \<and>
   toUpperCase uc_sample (''stra'' @ [CHR 0xC3, CHR 0x9F] @ ''e'')
     \<notin> fst ` set MandateErrorCodes \<and>
   handleEdgeCase uc_sample (''stra'' @ [CHR 0xC3, CHR 0x9F] @ ''e'') =
     \<lparr>code = ''STRASSE'',
      suggestedAction = ''Contact support Retry after a short delay.''\<rparr>"
proof -
  have z: "toUpperCase uc_sample ''zz9'' \<notin> fst ` set UPIErrorCodes"
    "toUpperCase uc_sample ''zz9'' \<notin> fst ` set MandateErrorCodes"
    using unknown_zz9(1) [of uc_sample] unknown_zz9(2,3) by simp_all
  have s: "toUpperCase uc_sample (''stra'' @ [CHR 0xC3, CHR 0x9F] @ ''e'')
             \<notin> fst ` set UPIErrorCodes"
    "toUpperCase uc_sample (''stra'' @ [CHR 0xC3, CHR 0x9F] @ ''e'')
             \<notin> fst ` set MandateErrorCodes"
    unfolding uc_sample_upper by (rule unknown_STRASSE)+
  have 1: "handleEdgeCase uc_sample ''zz9'' =
     \<lparr>code = ''ZZ9'', suggestedAction = ''Contact support Retry after a short delay.''\<rparr>"
    using handleEdgeCase_unknown [OF z] unknown_zz9(1) [of uc_sample] by simp
  have 2: "handleEdgeCase uc_sample (''stra'' @ [CHR 0xC3, CHR 0x9F] @ ''e'') =
     \<lparr>code = ''STRASSE'',
      suggestedAction = ''Contact support Retry after a short delay.''\<rparr>"
    using handleEdgeCase_unknown [OF s] by (simp only: uc_sample_upper)
  show ?thesis
    using z s 1 2 by (intro conjI)
qed

section \<open>Properties of the simulation\<close>

text \<open>
  Claim C4. \<open>simulateTransaction\<close> throws its error \<open>Invalid transaction type\<close> exactly
  when the transaction type (the argument, or Pay when the argument is omitted) is not one
  of the six values of \<open>UPITransactionType\<close>, and then it returns no record. With a valid
  type, a draw that is a double in \<open>[0, 1)\<close> and its product rounded to the nearest
  double, it returns a record, and so does \<open>simulateMandateRegistration\<close>.
  \<open>getCodeInfo\<close>, \<open>getDisputeInfo\<close> and \<open>handleEdgeCase\<close> are total functions into
  records: on a string they have no error to throw.
\<close>

theorem simulateTransaction_raises_iff:
  "set (Object_values UPITransactionType) =
     {UPITransactionType_PAY, UPITransactionType_COLLECT, UPITransactionType_INTENT,
      UPITransactionType_AUTOPAY, UPITransactionType_LITE, UPITransactionType_ASBA} \<and>
   (simulateTransaction uc fl_times a r rand1 rand2 =
      Inl (Error ''Invalid transaction type'') \<longleftrightarrow>
      (case a of None \<Rightarrow> UPITransactionType_PAY | Some t \<Rightarrow> t)
        \<notin> set (Object_values UPITransactionType)) \<and>
   (double_draw rand2 \<and> rounded_product fl_times rand2 83 \<longrightarrow>
      ((\<exists>e. simulateTransaction uc fl_times a r rand1 rand2 = Inl e) \<longleftrightarrow>
         (case a of None \<Rightarrow> UPITransactionType_PAY | Some t \<Rightarrow> t)
           \<notin> set (Object_values UPITransactionType)) \<and>
      ((\<exists>rec. simulateTransaction uc fl_times a r rand1 rand2 = Inr rec) \<longleftrightarrow>
         (case a of None \<Rightarrow> UPITransactionType_PAY | Some t \<Rightarrow> t)
           \<in> set (Object_values UPITransactionType))) \<and>
   (double_draw rand2 \<and> rounded_product fl_times rand2 50 \<longrightarrow>
      (\<exists>rec. simulateMandateRegistration uc fl_times r rand1 rand2 = Inr rec))"
proof -
  let ?t = "case a of None \<Rightarrow> UPITransactionType_PAY | Some t \<Rightarrow> t"
  let ?valid = "?t \<in> set (Object_values UPITransactionType)"
  let ?sim = "simulateTransaction uc fl_times a r rand1 rand2"
  have vals: "set (Object_values UPITransactionType) =
     {UPITransactionType_PAY, UPITransactionType_COLLECT, UPITransactionType_INTENT,
      UPITransactionType_AUTOPAY, UPITransactionType_LITE, UPITransactionType_ASBA}"
    by (simp add: Object_values_UPITransactionType)
  have invalid: "?sim = Inl (Error ''Invalid transaction type'')" if "\<not> ?valid"
    using that by (rule simulateTransaction_invalid)
  have valid: "\<exists>rec. ?sim = Inr rec"
    if v: "?valid" and d: "double_draw rand2" "rounded_product fl_times rand2 83"
  proof (cases "rand1 <
      (case r of None \<Rightarrow> 3602879701896397 / 4503599627370496 | Some x \<Rightarrow> x)")
    case True
    show ?thesis
      using simulateTransaction_success [OF v True] by (rule exI)
  next
    case False
    show ?thesis
      using simulateTransaction_failure [OF v False d] by (rule exI)
  qed
  have not_error: "?sim \<noteq> Inl (Error ''Invalid transaction type'')" if v: "?valid"
    using v unfolding simulateTransaction_def Let_def by simp
  have 1: "?sim = Inl (Error ''Invalid transaction type'') \<longleftrightarrow> \<not> ?valid"
    using invalid not_error by blast
  have 2: "(\<exists>e. ?sim = Inl e) \<longleftrightarrow> \<not> ?valid"
    if d: "double_draw rand2" "rounded_product fl_times rand2 83"
  proof
    assume e: "\<exists>e. ?sim = Inl e"
    show "\<not> ?valid"
    proof
      assume "?valid"
      then have "\<exists>rec. ?sim = Inr rec"
        using d by (rule valid)
      then show False
        using e by auto
    qed
  next
    assume "\<not> ?valid"
    then show "\<exists>e. ?sim = Inl e"
      using invalid by blast
  qed
  have 3: "(\<exists>rec. ?sim = Inr rec) \<longleftrightarrow> ?valid"
    if d: "double_draw rand2" "rounded_product fl_times rand2 83"
  proof
    assume e: "\<exists>rec. ?sim = Inr rec"
    show "?valid"
    proof (rule ccontr)
      assume "\<not> ?valid"
      then have "?sim = Inl (Error ''Invalid transaction type'')"
        by (rule invalid)
      then show False
        using e by simp
    qed
  next
    assume "?valid"
    then show "\<exists>rec. ?sim = Inr rec"
      using valid d by blast
  qed
  have 4: "\<exists>rec. simulateMandateRegistration uc fl_times r rand1 rand2 = Inr rec"
    if d: "double_draw rand2" "rounded_product fl_times rand2 50"
    using d by (rule simulateMandateRegistration_returns)
  show ?thesis
    using vals 1 2 3 4 by blast
qed

theorem simulateTransaction_raises_iff_witness:
  "simulateTransaction uc_sample fl_times_sample (Some ''Refund'') None (1 / 2) (1 / 2) =
     Inl (Error ''Invalid transaction type'') \<and>
   double_draw (1 / 2) \<and> rounded_product fl_times_sample (1 / 2) 83 \<and>
   rounded_product fl_times_sample (1 / 2) 50 \<and>
   (\<exists>rec. simulateTransaction uc_sample fl_times_sample None None (9 / 10) (1 / 2) =
      Inr rec) \<and>
   (\<exists>rec. simulateTransaction uc_sample fl_times_sample (Some ''UPI Lite'') (Some 1)
             (9 / 10) (1 / 2) = Inr rec) \<and>
   (\<exists>rec. simulateMandateRegistration uc_sample fl_times_sample None (9 / 10) (1 / 2) =
      Inr rec)"
proof -
  have v: "set (Object_values UPITransactionType) =
     {''Pay Request (Push)'', ''Collect Request (Pull)'', ''UPI Intent-Based Payment'',
      ''UPI Autopay'', ''UPI Lite'', ''UPI for ASBA''}"
    by (simp add: Object_values_UPITransactionType UPITransactionType_PAY_def
        UPITransactionType_COLLECT_def UPITransactionType_INTENT_def
        UPITransactionType_AUTOPAY_def UPITransactionType_LITE_def UPITransactionType_ASBA_def)
  note d = fl_times_sample_draws(1,2,3)
  have 1: "simulateTransaction uc_sample fl_times_sample (Some ''Refund'') None (1 / 2) (1 / 2) =
     Inl (Error ''Invalid transaction type'')"
    using simulateTransaction_raises_iff
      [of uc_sample fl_times_sample "Some ''Refund''" None "1 / 2" "1 / 2"]
    unfolding v by simp
  have 2: "\<exists>rec. simulateTransaction uc_sample fl_times_sample None None (9 / 10) (1 / 2) =
      Inr rec"
    using simulateTransaction_raises_iff
      [of uc_sample fl_times_sample None None "9 / 10" "1 / 2"] d
    unfolding v by (simp add: UPITransactionType_PAY_def)
  have 3: "\<exists>rec. simulateTransaction uc_sample fl_times_sample (Some ''UPI Lite'') (Some 1)
             (9 / 10) (1 / 2) = Inr rec"
    using simulateTransaction_raises_iff
      [of uc_sample fl_times_sample "Some ''UPI Lite''" "Some 1" "9 / 10" "1 / 2"] d
    unfolding v by simp
  have 4: "\<exists>rec. simulateMandateRegistration uc_sample fl_times_sample None (9 / 10) (1 / 2) =
      Inr rec"
    using simulateTransaction_raises_iff
      [of uc_sample fl_times_sample None None "9 / 10" "1 / 2"] d
    by blast
  show ?thesis
    using 1 d 2 3 4 by (intro conjI)
qed

text \<open>
  Claim C6. With a valid transaction type and the success rate 1, every first draw in
  \<open>[0, 1)\<close> gives the record of the code \<open>00\<close>, whose status is Success. With the success
  rate 0, no draws give a record of status Success: the second draw \<open>rand2\<close> selects an
  entry of the 83 codes of the general-error table other than \<open>00\<close> and \<open>000\<close>, the one
  at the index that is the rounded product of \<open>rand2\<close> and 83 cut to a whole number, and
  the result is the record \<open>getCodeInfo\<close> gives for that code. The selection is uniform:
  the 83 codes are distinct, and the draws that select the code at index \<open>i\<close> are those
  of the interval \<open>[i / 83, (i + 1) / 83)\<close>, up to the rounding of the product at the two
  ends of the interval.
\<close>

theorem simulateTransaction_rates:
  assumes "t \<in> set (Object_values UPITransactionType)"
  shows "(rand1 < 1 \<longrightarrow>
            simulateTransaction uc fl_times (Some t) (Some 1) rand1 rand2 =
              Inr (with_transactionType t (getCodeInfo uc ''00'')) \<and>
            status (with_transactionType t (getCodeInfo uc ''00'')) = UPIStatus_SUCCESS) \<and>
         (0 \<le> rand1 \<and> double_draw rand2 \<and> rounded_product fl_times rand2 83 \<longrightarrow>
            simulateTransaction uc fl_times (Some t) (Some 0) rand1 rand2 =
              Inr (with_transactionType t
                     (getCodeInfo uc (failureCodes ! nat \<lfloor>fl_times rand2 83\<rfloor>))) \<and>
            nat \<lfloor>fl_times rand2 83\<rfloor> < length failureCodes \<and>
            status (with_transactionType t
                      (getCodeInfo uc (failureCodes ! nat \<lfloor>fl_times rand2 83\<rfloor>)))
              \<noteq> UPIStatus_SUCCESS \<and>
            simulateTransaction uc fl_times (Some t) (Some 0) rand1 rand2 \<noteq>
              Inr (with_transactionType t (getCodeInfo uc ''00''))) \<and>
         set failureCodes = fst ` set UPIErrorCodes - {''00'', ''000''} \<and>
         distinct failureCodes \<and> length failureCodes = 83 \<and>
         (0 \<le> rand2 \<and> rounded_product fl_times rand2 83 \<longrightarrow>
            (real i / (83 * (1 - 1 / 2 ^ 53)) \<le> rand2 \<and>
             rand2 < (real i + 1) / (83 * (1 + 1 / 2 ^ 53)) \<longrightarrow>
               nat \<lfloor>fl_times rand2 83\<rfloor> = i) \<and>
            (nat \<lfloor>fl_times rand2 83\<rfloor> = i \<longrightarrow>
               real i / (83 * (1 + 1 / 2 ^ 53)) \<le> rand2 \<and>
               rand2 < (real i + 1) / (83 * (1 - 1 / 2 ^ 53))))"
proof -
  have v: "(case Some t of None \<Rightarrow> UPITransactionType_PAY | Some t \<Rightarrow> t)
             \<in> set (Object_values UPITransactionType)"
    using assms by simp
  have s00: "status (with_transactionType t (getCodeInfo uc ''00'')) = UPIStatus_SUCCESS"
    by (simp add: getCodeInfo_00)
  have 1: "rand1 < 1 \<longrightarrow>
            simulateTransaction uc fl_times (Some t) (Some 1) rand1 rand2 =
              Inr (with_transactionType t (getCodeInfo uc ''00'')) \<and>
            status (with_transactionType t (getCodeInfo uc ''00'')) = UPIStatus_SUCCESS"
  proof
    assume "rand1 < 1"
    then have "rand1 <
        (case Some (1::real) of None \<Rightarrow> 3602879701896397 / 4503599627370496 | Some x \<Rightarrow> x)"
      by simp
    then have "simulateTransaction uc fl_times (Some t) (Some 1) rand1 rand2 =
             Inr (with_transactionType t (getCodeInfo uc ''00''))"
      using simulateTransaction_success [OF v, of rand1 "Some 1" uc fl_times rand2] by simp
    then show "simulateTransaction uc fl_times (Some t) (Some 1) rand1 rand2 =
              Inr (with_transactionType t (getCodeInfo uc ''00'')) \<and>
            status (with_transactionType t (getCodeInfo uc ''00'')) = UPIStatus_SUCCESS"
      using s00 by simp
  qed
  have 2: "0 \<le> rand1 \<and> double_draw rand2 \<and> rounded_product fl_times rand2 83 \<longrightarrow>
            simulateTransaction uc fl_times (Some t) (Some 0) rand1 rand2 =
              Inr (with_transactionType t
                     (getCodeInfo uc (failureCodes ! nat \<lfloor>fl_times rand2 83\<rfloor>))) \<and>
            nat \<lfloor>fl_times rand2 83\<rfloor> < length failureCodes \<and>
            status (with_transactionType t
                      (getCodeInfo uc (failureCodes ! nat \<lfloor>fl_times rand2 83\<rfloor>)))
              \<noteq> UPIStatus_SUCCESS \<and>
            simulateTransaction uc fl_times (Some t) (Some 0) rand1 rand2 \<noteq>
              Inr (with_transactionType t (getCodeInfo uc ''00''))"
  proof
    assume a: "0 \<le> rand1 \<and> double_draw rand2 \<and> rounded_product fl_times rand2 83"
    then have n: "\<not> rand1 <
        (case Some (0::real) of None \<Rightarrow> 3602879701896397 / 4503599627370496 | Some x \<Rightarrow> x)"
      by simp
    have d: "double_draw rand2" and p: "rounded_product fl_times rand2 83"
      using a by simp_all
    have r: "simulateTransaction uc fl_times (Some t) (Some 0) rand1 rand2 =
             Inr (with_transactionType t
                    (getCodeInfo uc (failureCodes ! nat \<lfloor>fl_times rand2 83\<rfloor>)))"
      using simulateTransaction_failure [OF v n d p] by simp
    have "\<lfloor>fl_times rand2 83\<rfloor> < 83" and "0 \<le> \<lfloor>fl_times rand2 83\<rfloor>"
      using rounded_index [of rand2 fl_times 83] d p by simp_all
    then have "nat \<lfloor>fl_times rand2 83\<rfloor> < 83"
      by linarith
    then have i: "nat \<lfloor>fl_times rand2 83\<rfloor> < length failureCodes"
      by (simp only: length_failureCodes)
    have s: "status (with_transactionType t
                      (getCodeInfo uc (failureCodes ! nat \<lfloor>fl_times rand2 83\<rfloor>)))
             \<noteq> UPIStatus_SUCCESS"
      using failure_code(4) [OF i] by simp
    have "with_transactionType t
            (getCodeInfo uc (failureCodes ! nat \<lfloor>fl_times rand2 83\<rfloor>)) \<noteq>
          with_transactionType t (getCodeInfo uc ''00'')"
      using s s00 by metis
    then show "simulateTransaction uc fl_times (Some t) (Some 0) rand1 rand2 =
              Inr (with_transactionType t
                     (getCodeInfo uc (failureCodes ! nat \<lfloor>fl_times rand2 83\<rfloor>))) \<and>
            nat \<lfloor>fl_times rand2 83\<rfloor> < length failureCodes \<and>
            status (with_transactionType t
                      (getCodeInfo uc (failureCodes ! nat \<lfloor>fl_times rand2 83\<rfloor>)))
              \<noteq> UPIStatus_SUCCESS \<and>
            simulateTransaction uc fl_times (Some t) (Some 0) rand1 rand2 \<noteq>
              Inr (with_transactionType t (getCodeInfo uc ''00''))"
      using r i s by simp
  qed
  have 3: "0 \<le> rand2 \<and> rounded_product fl_times rand2 83 \<longrightarrow>
            (real i / (83 * (1 - 1 / 2 ^ 53)) \<le> rand2 \<and>
             rand2 < (real i + 1) / (83 * (1 + 1 / 2 ^ 53)) \<longrightarrow>
               nat \<lfloor>fl_times rand2 83\<rfloor> = i) \<and>
            (nat \<lfloor>fl_times rand2 83\<rfloor> = i \<longrightarrow>
               real i / (83 * (1 + 1 / 2 ^ 53)) \<le> rand2 \<and>
               rand2 < (real i + 1) / (83 * (1 - 1 / 2 ^ 53)))"
  proof (intro impI conjI)
    assume a: "0 \<le> rand2 \<and> rounded_product fl_times rand2 83"
    assume b: "real i / (83 * (1 - 1 / 2 ^ 53)) \<le> rand2 \<and>
               rand2 < (real i + 1) / (83 * (1 + 1 / 2 ^ 53))"
    show "nat \<lfloor>fl_times rand2 83\<rfloor> = i"
      using rounded_index_inner [of rand2 fl_times 83 i] a b by simp
  next
    assume a: "0 \<le> rand2 \<and> rounded_product fl_times rand2 83"
    assume b: "nat \<lfloor>fl_times rand2 83\<rfloor> = i"
    show "real i / (83 * (1 + 1 / 2 ^ 53)) \<le> rand2"
      using rounded_index_outer(1) [of rand2 fl_times 83 i] a b by simp
  next
    assume a: "0 \<le> rand2 \<and> rounded_product fl_times rand2 83"
    assume b: "nat \<lfloor>fl_times rand2 83\<rfloor> = i"
    show "rand2 < (real i + 1) / (83 * (1 - 1 / 2 ^ 53))"
      using rounded_index_outer(2) [of rand2 fl_times 83 i] a b by simp
  qed
  show ?thesis
    using 1 2 set_failureCodes distinct_failureCodes length_failureCodes 3
    by (intro conjI)
qed

theorem simulateTransaction_rates_witness:
  "''UPI Lite'' \<in> set (Object_values UPITransactionType) \<and>
   simulateTransaction uc_sample fl_times_sample (Some ''UPI Lite'') (Some 1) (1 / 2) (1 / 2) =
     Inr \<lparr>code = ''00'', description = ''Approved or completed successfully'',
          type = ''Success'', status = ''Processed'', handling = ''No action needed.'',
          transactionType = ''UPI Lite''\<rparr> \<and>
   double_draw (1682067330704643 / 4503599627370496) \<and>
   rounded_product fl_times_sample (1682067330704643 / 4503599627370496) 83 \<and>
   nat \<lfloor>fl_times_sample (1682067330704643 / 4503599627370496) 83\<rfloor> = 31 \<and>
   simulateTransaction uc_sample fl_times_sample (Some ''UPI Lite'') (Some 0) (1 / 2)
       (1682067330704643 / 4503599627370496) =
     Inr \<lparr>code = ''01'', description = ''Unable to process reversal / Account closed'',
          type = ''Business'', status = ''Rejected'',
          handling = ''Reinitiate with same CRN; e.g., closed account in mandate presentation.'',
          transactionType = ''UPI Lite''\<rparr>"
proof -
  have v: "''UPI Lite'' \<in> set (Object_values UPITransactionType)"
    by (simp add: Object_values_UPITransactionType UPITransactionType_LITE_def)
  note d = fl_times_sample_draws(5,6)
  note r = simulateTransaction_rates
    [OF v, of "1 / 2" uc_sample fl_times_sample "1682067330704643 / 4503599627370496" 31]
  have f: "nat \<lfloor>fl_times_sample (1682067330704643 / 4503599627370496) 83\<rfloor> = 31"
    by (simp add: fl_times_sample_draws(7))
  have c: "failureCodes ! 31 = ''01''"
    by (simp add: failureCodes_eq)
  have h: "(1 / 2 :: real) < 1" "(0 :: real) \<le> 1 / 2"
    by simp_all
  have "simulateTransaction uc_sample fl_times_sample (Some ''UPI Lite'') (Some 1) (1 / 2)
          (1682067330704643 / 4503599627370496) =
        Inr (with_transactionType ''UPI Lite'' (getCodeInfo uc_sample ''00''))"
    using r [THEN conjunct1] h(1) by simp
  moreover have "simulateTransaction uc_sample fl_times_sample (Some ''UPI Lite'') (Some 1)
          (1 / 2) (1 / 2) =
        simulateTransaction uc_sample fl_times_sample (Some ''UPI Lite'') (Some 1) (1 / 2)
          (1682067330704643 / 4503599627370496)"
    using v by (simp add: simulateTransaction_def)
  ultimately have 1: "simulateTransaction uc_sample fl_times_sample (Some ''UPI Lite'')
          (Some 1) (1 / 2) (1 / 2) =
     Inr \<lparr>code = ''00'', description = ''Approved or completed successfully'',
          type = ''Success'', status = ''Processed'', handling = ''No action needed.'',
          transactionType = ''UPI Lite''\<rparr>"
    by (simp add: getCodeInfo_00 with_transactionType_def UPIStatus_SUCCESS_def)
  have "simulateTransaction uc_sample fl_times_sample (Some ''UPI Lite'') (Some 0) (1 / 2)
          (1682067330704643 / 4503599627370496) =
        Inr (with_transactionType ''UPI Lite''
               (getCodeInfo uc_sample
                  (failureCodes !
                     nat \<lfloor>fl_times_sample (1682067330704643 / 4503599627370496) 83\<rfloor>)))"
    using r [THEN conjunct2, THEN conjunct1] h(2) d by simp
  then have 2: "simulateTransaction uc_sample fl_times_sample (Some ''UPI Lite'') (Some 0)
          (1 / 2) (1682067330704643 / 4503599627370496) =
     Inr \<lparr>code = ''01'', description = ''Unable to process reversal / Account closed'',
          type = ''Business'', status = ''Rejected'',
          handling = ''Reinitiate with same CRN; e.g., closed account in mandate presentation.'',
          transactionType = ''UPI Lite''\<rparr>"
    unfolding f c getCodeInfo_01
    by (simp add: with_transactionType_def UPIStatus_REJECTED_def)
  show ?thesis
    using v 1 d f 2 by (intro conjI)
qed

end
